theory Spec2Isabelle
  imports Main "HOL-Library.Word"
begin

section \<open>JavaScript values as the server reads them\<close>

text \<open>
  The server works on parsed JSON (\<^verbatim>\<open>JSON.parse\<close>, \<^verbatim>\<open>express.json\<close>) and reads it
  with optional chaining, \<^verbatim>\<open>??\<close>, \<^verbatim>\<open>||\<close> and \<^verbatim>\<open>String(...)\<close>. A value is one of the JSON
  kinds, or \<^verbatim>\<open>undefined\<close> (what a missing property reads as). \<open>JNum n\<close> is the number
  that the JSON text of the whole number \<open>n\<close> is parsed to: \<open>n\<close> itself up to
  \<open>2\<^sup>5\<^sup>3\<close>, the nearest double beyond. An object is the list of its own properties, each
  key once. A string is held as its UTF-8 encoding, a byte for each \<^typ>\<open>char\<close>; a
  surrogate that stands alone is held in the same three-byte form.
\<close>

type_synonym byte = "8 word"

datatype jsval =
    JUndefined
  | JNull
  | JBool bool
  | JNum int
  | JStr string
  | JArr "jsval list"
  | JObj "(string \<times> jsval) list"

text \<open>
  A thrown value. Everything the server throws itself is \<^verbatim>\<open>new Error(msg)\<close>; the
  language throws \<^verbatim>\<open>TypeError\<close> (a conversion of an object that has no callable
  \<^verbatim>\<open>toString\<close>, a call of something that is no function, a property of
  \<^verbatim>\<open>undefined\<close>) and \<^verbatim>\<open>URIError\<close> (\<^verbatim>\<open>encodeURIComponent\<close> of a string with a surrogate
  that stands alone), and \<^verbatim>\<open>fetch\<close> rejects on a network failure or an abort.
\<close>

datatype error = Error string | TypeError string | URIError string

definition nullish :: "jsval \<Rightarrow> bool" where
  "nullish v = (v = JUndefined \<or> v = JNull)"

text \<open>\<^verbatim>\<open>a ?? b\<close>\<close>

definition js_nc :: "jsval \<Rightarrow> jsval \<Rightarrow> jsval" where
  "js_nc a b = (if nullish a then b else a)"

fun truthy :: "jsval \<Rightarrow> bool" where
  "truthy JUndefined = False"
| "truthy JNull = False"
| "truthy (JBool b) = b"
| "truthy (JNum n) = (n \<noteq> 0)"
| "truthy (JStr s) = (s \<noteq> [])"
| "truthy (JArr xs) = True"
| "truthy (JObj kvs) = True"

text \<open>\<^verbatim>\<open>a || b\<close>\<close>

definition js_or :: "jsval \<Rightarrow> jsval \<Rightarrow> jsval" where
  "js_or a b = (if truthy a then a else b)"

text \<open>
  \<^verbatim>\<open>v?.k\<close> for a property name \<open>k\<close> that is neither an index nor \<^verbatim>\<open>length\<close> nor a
  member of a prototype (every name the server reads this way): an object yields its own
  property, everything else \<^verbatim>\<open>undefined\<close>.
\<close>

fun js_prop :: "jsval \<Rightarrow> string \<Rightarrow> jsval" where
  "js_prop (JObj kvs) k = (case map_of kvs k of Some v \<Rightarrow> v | None \<Rightarrow> JUndefined)"
| "js_prop v k = JUndefined"

text \<open>
  The first UTF-16 code unit of a string, as a string: the first character, or, of a
  character beyond U+FFFF (four bytes in UTF-8), its high surrogate.
\<close>

definition first_unit :: "string \<Rightarrow> string" where
  "first_unit s =
     (case map (of_char :: char \<Rightarrow> nat) s of
        [] \<Rightarrow> []
      | b0 # bs \<Rightarrow>
          if b0 < 0x80 then take 1 s
          else if b0 < 0xE0 then take 2 s
          else if b0 < 0xF0 then take 3 s
          else (case bs of
                  b1 # b2 # b3 # _ \<Rightarrow>
                    let cp = b0 mod 8 * 262144 + b1 mod 64 * 4096 + b2 mod 64 * 64 + b3 mod 64;
                        hs = 0xD800 + (cp - 0x10000) div 1024
                    in map char_of [0xED, 0x80 + hs div 64 mod 64, 0x80 + hs mod 64]
                | _ \<Rightarrow> s))"

text \<open>\<^verbatim>\<open>v?.[0]\<close>: the first element of an array, the first code unit of a string.\<close>

fun js_index0 :: "jsval \<Rightarrow> jsval" where
  "js_index0 (JArr xs) = (case xs of [] \<Rightarrow> JUndefined | x # _ \<Rightarrow> x)"
| "js_index0 (JStr s) = (if s = [] then JUndefined else JStr (first_unit s))"
| "js_index0 (JObj kvs) = (case map_of kvs ''0'' of Some v \<Rightarrow> v | None \<Rightarrow> JUndefined)"
| "js_index0 v = JUndefined"

subsection \<open>Strings\<close>

definition lower_char :: "char \<Rightarrow> char" where
  "lower_char c =
     (let n = (of_char c :: nat) in if 65 \<le> n \<and> n \<le> 90 then char_of (n + 32) else c)"

text \<open>
  \<^verbatim>\<open>s.toLowerCase()\<close>, on the ASCII letters. The code only compares the result with, or
  searches it for, ASCII words without a \<^verbatim>\<open>k\<close>, and never keeps it. Outside ASCII the
  lower case of a character has an ASCII letter in two cases only: U+212A, which becomes
  \<^verbatim>\<open>k\<close>, and U+0130, which becomes \<^verbatim>\<open>i\<close> followed by the combining dot U+0307, so that
  no word continues after it. The answers of those tests are therefore the ones of the code.
\<close>

definition toLowerCase :: "string \<Rightarrow> string" where
  "toLowerCase s = map lower_char s"

fun startsWith :: "string \<Rightarrow> string \<Rightarrow> bool" where
  "startsWith s [] = True"
| "startsWith [] (p # ps) = False"
| "startsWith (c # cs) (p # ps) = (c = p \<and> startsWith cs ps)"

fun str_includes :: "string \<Rightarrow> string \<Rightarrow> bool" where
  "str_includes [] sub = (sub = [])"
| "str_includes (c # cs) sub = (startsWith (c # cs) sub \<or> str_includes cs sub)"

text \<open>
  The characters \<^verbatim>\<open>trim\<close> removes and \<^verbatim>\<open>\s\<close> matches, in UTF-8: tab, line feed,
  vertical tab, form feed, carriage return, space, U+00A0, U+1680, U+2000 to U+200A,
  U+2028, U+2029, U+202F, U+205F, U+3000 and U+FEFF.
\<close>

definition white_space :: "string list" where
  "white_space = map (map char_of)
     [[0x09], [0x0A], [0x0B], [0x0C], [0x0D], [0x20],
      [0xC2, 0xA0],
      [0xE1, 0x9A, 0x80],
      [0xE2, 0x80, 0x80], [0xE2, 0x80, 0x81], [0xE2, 0x80, 0x82], [0xE2, 0x80, 0x83],
      [0xE2, 0x80, 0x84], [0xE2, 0x80, 0x85], [0xE2, 0x80, 0x86], [0xE2, 0x80, 0x87],
      [0xE2, 0x80, 0x88], [0xE2, 0x80, 0x89], [0xE2, 0x80, 0x8A],
      [0xE2, 0x80, 0xA8], [0xE2, 0x80, 0xA9],
      [0xE2, 0x80, 0xAF],
      [0xE2, 0x81, 0x9F],
      [0xE3, 0x80, 0x80],
      [0xEF, 0xBB, 0xBF :: nat]]"

text \<open>\<open>strip ws s\<close>: \<open>s\<close> without the members of \<open>ws\<close> it begins with.\<close>

function strip :: "string list \<Rightarrow> string \<Rightarrow> string" where
  "strip ws s =
     (case find (\<lambda>w. w \<noteq> [] \<and> startsWith s w) ws of
        None \<Rightarrow> s
      | Some w \<Rightarrow> strip ws (drop (length w) s))"
  by pat_completeness auto
termination
proof (relation "measure (\<lambda>(ws, s). length s)")
  show "wf (measure (\<lambda>(ws, s). length s))" by simp
next
  fix ws :: "string list" and s w :: string
  assume "find (\<lambda>w. w \<noteq> [] \<and> startsWith s w) ws = Some w"
  then have "w \<noteq> []" "startsWith s w" by (auto simp: find_Some_iff)
  then have "s \<noteq> []" by (cases s; cases w) auto
  with \<open>w \<noteq> []\<close> show "((ws, drop (length w) s), (ws, s)) \<in> measure (\<lambda>(ws, s). length s)"
    by (cases w) auto
qed

declare strip.simps [simp del]

definition trimStart :: "string \<Rightarrow> string" where
  "trimStart s = strip white_space s"

definition trimEnd :: "string \<Rightarrow> string" where
  "trimEnd s = rev (strip (map rev white_space) (rev s))"

definition trim :: "string \<Rightarrow> string" where
  "trim s = trimEnd (trimStart s)"

fun js_join :: "string \<Rightarrow> string list \<Rightarrow> string" where
  "js_join sep [] = []"
| "js_join sep [x] = x"
| "js_join sep (x # y # ys) = x @ sep @ js_join sep (y # ys)"

text \<open>
  The decimal digits of a natural number: what a template literal makes of a status code
  or of an array index.
\<close>

function nat_to_string :: "nat \<Rightarrow> string" where
  "nat_to_string n =
     (if n < 10 then [char_of (48 + n)]
      else nat_to_string (n div 10) @ [char_of (48 + n mod 10)])"
  by pat_completeness auto
termination
  by (relation "measure (\<lambda>n. n)") auto

text \<open>
  \<^verbatim>\<open>String(x)\<close> for a number. \<open>digits b n\<close> is the number of digits of \<open>n\<close> to the base
  \<open>b\<close>. \<open>to_double n\<close> is the double nearest to \<open>n\<close>, ties to the even significand;
  from \<open>2\<^sup>1\<^sup>0\<^sup>2\<^sup>4\<close> on it stands for \<^verbatim>\<open>Infinity\<close>. The digits printed are the fewest that
  read back as the same double, the closest such value when there is a choice
  (\<open>shortest\<close>, trying the multiples of ever smaller powers of ten next to \<open>x\<close>); they are
  written out in full up to 21 digits and with an exponent beyond.
\<close>

function digits :: "nat \<Rightarrow> nat \<Rightarrow> nat" where
  "digits b n = (if n = 0 \<or> b < 2 then 0 else Suc (digits b (n div b)))"
  by pat_completeness auto
termination
  by (relation "measure (\<lambda>(b, n). n)") auto

definition to_double :: "nat \<Rightarrow> nat" where
  "to_double n =
     (if digits 2 n \<le> 53 then n
      else
        let u = 2 ^ (digits 2 n - 53);
            q = n div u;
            r = n mod u
        in if u < 2 * r \<or> (2 * r = u \<and> odd q) then (q + 1) * u else q * u)"

definition nearest :: "nat \<Rightarrow> nat \<Rightarrow> nat option" where
  "nearest x e =
     (let lo = x div 10 ^ e * 10 ^ e;
          hi = lo + 10 ^ e
      in if to_double lo = x \<and> to_double hi = x
         then Some (if x - lo < hi - x \<or> (x - lo = hi - x \<and> even (x div 10 ^ e)) then lo else hi)
         else if to_double lo = x then Some lo
         else if to_double hi = x then Some hi
         else None)"

fun shortest :: "nat \<Rightarrow> nat \<Rightarrow> nat" where
  "shortest x 0 = x"
| "shortest x (Suc e) = (case nearest x (Suc e) of Some v \<Rightarrow> v | None \<Rightarrow> shortest x e)"

function significand :: "nat \<Rightarrow> nat" where
  "significand v = (if 0 < v \<and> v mod 10 = 0 then significand (v div 10) else v)"
  by pat_completeness auto
termination
  by (relation "measure (\<lambda>v. v)") auto

definition number_text :: "int \<Rightarrow> string" where
  "number_text i =
     (let x = to_double (nat \<bar>i\<bar>);
          sign = (if i < 0 then ''-'' else [])
      in if 2 ^ 1024 \<le> x then sign @ ''Infinity''
         else
           let v = shortest x (digits 10 x);
               n = digits 10 v
           in if n \<le> 21 then sign @ nat_to_string v
              else
                let s = nat_to_string (significand v)
                in sign @ (if length s = 1 then s else hd s # ''.'' @ tl s)
                        @ ''e+'' @ nat_to_string (n - 1))"

text \<open>The first error of a list of results, or all the values.\<close>

fun sequence_results :: "(error + 'a) list \<Rightarrow> error + 'a list" where
  "sequence_results [] = Inr []"
| "sequence_results (r # rs) =
     (case r of
        Inl e \<Rightarrow> Inl e
      | Inr v \<Rightarrow> (case sequence_results rs of Inl e \<Rightarrow> Inl e | Inr vs \<Rightarrow> Inr (v # vs)))"

definition cannot_convert :: error where
  "cannot_convert = TypeError ''Cannot convert object to primitive value''"

text \<open>
  \<^verbatim>\<open>String(v)\<close>. An array joins its elements with commas, \<^verbatim>\<open>null\<close> and
  \<^verbatim>\<open>undefined\<close> elements as empty strings. An object is \<^verbatim>\<open>[object Object]\<close>, unless it
  has a property \<^verbatim>\<open>toString\<close> of its own: a JSON value is not callable, and
  \<^verbatim>\<open>Object.prototype.valueOf\<close> returns the object, so the conversion throws.
\<close>

fun js_String :: "jsval \<Rightarrow> error + string" where
  "js_String JUndefined = Inr ''undefined''"
| "js_String JNull = Inr ''null''"
| "js_String (JBool b) = Inr (if b then ''true'' else ''false'')"
| "js_String (JNum n) = Inr (number_text n)"
| "js_String (JStr s) = Inr s"
| "js_String (JArr xs) =
     (case sequence_results (map (\<lambda>x. if nullish x then Inr [] else js_String x) xs) of
        Inl e \<Rightarrow> Inl e
      | Inr ss \<Rightarrow> Inr (js_join '','' ss))"
| "js_String (JObj kvs) =
     (if ''toString'' \<in> set (map fst kvs) then Inl cannot_convert
      else Inr ''[object Object]'')"

section \<open>MIME sniffing\<close>

text \<open>
  \<^verbatim>\<open>detectImageMime(buffer)\<close>. A \<^verbatim>\<open>Buffer\<close> is its list of bytes; the callers pass
  buffers, never \<^verbatim>\<open>null\<close>. The guard on the length comes first, so the reads of
  \<^verbatim>\<open>buffer[0..3]\<close> below it are in range.
\<close>

definition detectImageMime :: "byte list \<Rightarrow> string" where
  "detectImageMime buffer =
     (if length buffer < 4 then ''image/png''
      else if buffer ! 0 = 0x89 \<and> buffer ! 1 = 0x50 \<and> buffer ! 2 = 0x4E \<and> buffer ! 3 = 0x47
        then ''image/png''
      else if buffer ! 0 = 0xFF \<and> buffer ! 1 = 0xD8 \<and> buffer ! 2 = 0xFF then ''image/jpeg''
      else if buffer ! 0 = 0x47 \<and> buffer ! 1 = 0x49 \<and> buffer ! 2 = 0x46 then ''image/gif''
      else if buffer ! 0 = 0x52 \<and> buffer ! 1 = 0x49 \<and> buffer ! 2 = 0x46 \<and> buffer ! 3 = 0x46
        then ''image/webp''
      else ''image/png'')"

text \<open>
  \<^verbatim>\<open>mime.includes(sub)\<close> where \<open>mime\<close> may be any value a request carried: a string
  tests for a substring, an array for an element, and on anything else
  \<^verbatim>\<open>includes\<close> is no function.
\<close>

fun mime_includes :: "jsval \<Rightarrow> string \<Rightarrow> error + bool" where
  "mime_includes (JStr s) sub = Inr (str_includes s sub)"
| "mime_includes (JArr xs) sub = Inr (JStr sub \<in> set xs)"
| "mime_includes v sub = Inl (TypeError ''mime.includes is not a function'')"

definition extFromMime :: "jsval \<Rightarrow> error + string" where
  "extFromMime mime =
     (if \<not> truthy mime then Inr ''bin''
      else case mime_includes mime ''png'' of
        Inl e \<Rightarrow> Inl e
      | Inr True \<Rightarrow> Inr ''png''
      | Inr False \<Rightarrow>
         (case mime_includes mime ''jpeg'' of
            Inl e \<Rightarrow> Inl e
          | Inr True \<Rightarrow> Inr ''jpg''
          | Inr False \<Rightarrow>
             (case mime_includes mime ''jpg'' of
                Inl e \<Rightarrow> Inl e
              | Inr True \<Rightarrow> Inr ''jpg''
              | Inr False \<Rightarrow>
                 (case mime_includes mime ''gif'' of
                    Inl e \<Rightarrow> Inl e
                  | Inr True \<Rightarrow> Inr ''gif''
                  | Inr False \<Rightarrow>
                     (case mime_includes mime ''webp'' of
                        Inl e \<Rightarrow> Inl e
                      | Inr True \<Rightarrow> Inr ''webp''
                      | Inr False \<Rightarrow> Inr ''bin'')))))"

section \<open>The usage ledger\<close>

text \<open>
  \<^verbatim>\<open>usageLogs\<close> is a \<^verbatim>\<open>Map\<close> from the short hash of an API key to an array of log
  entries. \<^verbatim>\<open>sha256Short\<close> (the first 16 hex digits of SHA-256) is a parameter.
  \<^verbatim>\<open>arr.unshift(log)\<close> puts the entry in front; \<^verbatim>\<open>arr.length = 2000\<close> cuts the tail.
\<close>

record usage_log =
  log_created_at :: nat
  log_model_name :: string
  log_prompt :: string
  log_image_count :: nat
  log_path :: string
  log_kind :: string

type_synonym ledger = "string \<rightharpoonup> usage_log list"

definition pushUsageLog :: "(string \<Rightarrow> string) \<Rightarrow> ledger \<Rightarrow> string \<Rightarrow> usage_log \<Rightarrow> ledger" where
  "pushUsageLog sha256Short usageLogs apiKey log =
     (if apiKey = [] then usageLogs
      else
        let keyHash = sha256Short apiKey;
            arr = (case usageLogs keyHash of Some a \<Rightarrow> a | None \<Rightarrow> []);
            arr1 = log # arr;
            arr2 = (if length arr1 > 2000 then take 2000 arr1 else arr1)
        in usageLogs(keyHash \<mapsto> arr2))"

text \<open>Appending a sequence of entries under one key, the first of the list first.\<close>

fun push_all :: "(string \<Rightarrow> string) \<Rightarrow> ledger \<Rightarrow> string \<Rightarrow> usage_log list \<Rightarrow> ledger" where
  "push_all sha256Short usageLogs apiKey [] = usageLogs"
| "push_all sha256Short usageLogs apiKey (l # ls) =
     push_all sha256Short (pushUsageLog sha256Short usageLogs apiKey l) apiKey ls"

section \<open>Status normalisation\<close>

text \<open>The local bindings of \<^verbatim>\<open>normalizeKieStatusToSimple\<close>, by their names.\<close>

definition kie_data :: "jsval \<Rightarrow> jsval" where
  "kie_data json = js_nc (js_prop json ''data'') json"

definition kie_successFlag :: "jsval \<Rightarrow> jsval" where
  "kie_successFlag json = js_prop (kie_data json) ''successFlag''"

definition kie_stateRaw :: "jsval \<Rightarrow> jsval" where
  "kie_stateRaw json =
     (let data = kie_data json in
      js_nc (js_nc (js_nc (js_prop data ''state'') (js_prop data ''status''))
                   (js_prop data ''task_status''))
            (js_prop data ''taskStatus''))"

definition normalizeKieStatusToSimple :: "jsval \<Rightarrow> error + string" where
  "normalizeKieStatusToSimple json =
     (let successFlag = kie_successFlag json;
          stateRaw = kie_stateRaw json
      in case js_String (js_or stateRaw (JStr [])) of
           Inl e \<Rightarrow> Inl e
         | Inr s \<Rightarrow>
            (let state = toLowerCase s in
             if successFlag = JNum 1 \<or> state = ''success'' \<or> state = ''succeed''
                \<or> state = ''completed'' \<or> state = ''done''
             then Inr ''completed''
             else if successFlag = JNum 2 \<or> successFlag = JNum 3 \<or> state = ''failed''
                \<or> state = ''error'' \<or> state = ''fail''
             then Inr ''failed''
             else Inr ''processing''))"

definition nonempty_array :: "jsval \<Rightarrow> bool" where
  "nonempty_array v = (case v of JArr (x # xs) \<Rightarrow> True | _ \<Rightarrow> False)"

definition extractFirstResultUrl :: "jsval \<Rightarrow> jsval" where
  "extractFirstResultUrl json =
     (let data = kie_data json;
          response = js_nc (js_nc (js_prop data ''response'') (js_prop data ''result'')) (JObj []);
          urls = js_or (js_or (js_or (js_or (js_or (js_or
                   (js_prop response ''resultUrls'')
                   (js_prop response ''result_urls''))
                   (js_prop response ''urls''))
                   (js_prop data ''resultUrls''))
                   (js_prop data ''result_urls''))
                   (js_prop data ''urls''))
                   (JArr [])
      in if nonempty_array urls then js_index0 urls
         else
           let taskResult = js_or (js_prop data ''task_result'') (js_prop data ''taskResult'');
               maybe = js_or (js_prop (js_index0 (js_prop taskResult ''videos'')) ''url'')
                             (js_prop (js_index0 (js_prop taskResult ''images'')) ''url'')
           in if truthy maybe then maybe
              else js_or (js_or (js_prop data ''video_url'') (js_prop data ''url'')) JNull)"

section \<open>The upstream, the clock and the state of the process\<close>

text \<open>
  What the server sends with \<^verbatim>\<open>fetch\<close>. A JSON body is kept as the value that
  \<^verbatim>\<open>JSON.stringify\<close> is applied to; a multipart body as the one file of the form: its
  name, the type given to the \<^verbatim>\<open>Blob\<close> and the bytes.
\<close>

datatype payload = NoBody | JsonBody jsval | FormFile string jsval "byte list"

record request =
  rq_url :: string
  rq_method :: string
  rq_headers :: "(string \<times> string) list"
  rq_body :: payload

text \<open>
  What comes back. \<open>rs_json\<close> is the reading \<^verbatim>\<open>fetchJson\<close> makes of the body text
  (\<^verbatim>\<open>JSON.parse(text)\<close>, or \<^verbatim>\<open>{ raw: text }\<close> when that throws); \<open>rs_bytes\<close> is the
  body itself, \<open>None\<close> when \<^verbatim>\<open>resp.body\<close> is \<^verbatim>\<open>null\<close>. \<^verbatim>\<open>resp.ok\<close> is a status from 200 to 299.
\<close>

record response =
  rs_status :: nat
  rs_headers :: "(string \<times> string) list"
  rs_json :: jsval
  rs_bytes :: "byte list option"

datatype fetch_result = Rejected error | Responded response

record exchange =
  ex_at :: nat
  ex_request :: request
  ex_result :: fetch_result

text \<open>
  The state one request handler runs in: the clock (\<^verbatim>\<open>Date.now()\<close>, in milliseconds),
  the calls made to the upstream so far with their outcomes, and the usage ledger.
\<close>

record state =
  clock :: nat
  trace :: "exchange list"
  usageLogs :: ledger

text \<open>
  The configuration and everything outside the process. The two settings of the wait
  are \<^verbatim>\<open>Number(...)\<close> of an environment variable, here whole numbers of milliseconds
  that are not negative, as the defaults 180000 and 2000 are. (For the budget a fraction
  acts as the next whole number, and a negative number or \<^verbatim>\<open>NaN\<close> as 0; a budget
  without end is not modelled.)
  The upstream answers as a function of what it has seen and of the time, each call takes
  \<open>latency\<close> milliseconds, and a timer fires \<open>timer_lag\<close> milliseconds late. The library
  functions the model does not open are parameters as well; \<^verbatim>\<open>encodeURIComponent\<close> is
  \<open>None\<close> where it throws.
\<close>

record env =
  KIE_API_BASE :: string
  IMAGE_SYNC_MAX_WAIT_MS :: nat
  IMAGE_SYNC_POLL_MS :: nat
  sha256Short :: "string \<Rightarrow> string"
  from_base64 :: "string \<Rightarrow> byte list"
  to_base64 :: "byte list \<Rightarrow> string"
  encodeURIComponent :: "string \<Rightarrow> string option"
  JSON_stringify :: "jsval \<Rightarrow> string"
  parse_number :: "string \<Rightarrow> int option"
  respond :: "exchange list \<Rightarrow> nat \<Rightarrow> request \<Rightarrow> fetch_result"
  latency :: "exchange list \<Rightarrow> nat \<Rightarrow> request \<Rightarrow> nat"
  timer_lag :: "exchange list \<Rightarrow> nat \<Rightarrow> nat"

definition fetch :: "env \<Rightarrow> request \<Rightarrow> state \<Rightarrow> fetch_result \<times> state" where
  "fetch env rq st =
     (let r = respond env (trace st) (clock st) rq
      in (r, st\<lparr>clock := clock st + latency env (trace st) (clock st) rq,
                 trace := trace st @ [\<lparr>ex_at = clock st, ex_request = rq, ex_result = r\<rparr>]\<rparr>))"

text \<open>
  \<^verbatim>\<open>await new Promise(r => setTimeout(r, ms))\<close>. A delay below 1 or above
  \<open>2\<^sup>3\<^sup>1 - 1\<close> is replaced by 1 by the timer.
\<close>

definition timer_delay :: "nat \<Rightarrow> nat" where
  "timer_delay ms = (if ms < 1 \<or> 2147483647 < ms then 1 else ms)"

definition sleep :: "env \<Rightarrow> nat \<Rightarrow> state \<Rightarrow> state" where
  "sleep env ms st =
     st\<lparr>clock := clock st + timer_delay ms + timer_lag env (trace st) (clock st)\<rparr>"

definition nowUnix :: "state \<Rightarrow> nat" where
  "nowUnix st = clock st div 1000"

definition resp_ok :: "response \<Rightarrow> bool" where
  "resp_ok r = (200 \<le> rs_status r \<and> rs_status r \<le> 299)"

definition fetchJson :: "env \<Rightarrow> request \<Rightarrow> state \<Rightarrow> (error + response) \<times> state" where
  "fetchJson env rq st =
     (case fetch env rq st of
        (Rejected e, st1) \<Rightarrow> (Inl e, st1)
      | (Responded r, st1) \<Rightarrow> (Inr r, st1))"

definition log_usage :: "env \<Rightarrow> string \<Rightarrow> usage_log \<Rightarrow> state \<Rightarrow> state" where
  "log_usage env apiKey log st =
     st\<lparr>usageLogs := pushUsageLog (sha256Short env) (usageLogs st) apiKey log\<rparr>"

section \<open>KIE helpers\<close>

definition upload_request :: "string \<Rightarrow> string \<Rightarrow> payload \<Rightarrow> request" where
  "upload_request apiKey u form =
     \<lparr>rq_url = u, rq_method = ''POST'',
      rq_headers = [(''Authorization'', ''Bearer '' @ apiKey), (''Accept'', ''application/json'')],
      rq_body = form\<rparr>"

definition upload_file_url :: "jsval \<Rightarrow> jsval" where
  "upload_file_url json =
     (let data = js_nc (js_prop json ''data'') json
      in js_or (js_or (js_or (js_or (js_or (js_or
           (js_prop data ''url'')
           (js_prop data ''fileUrl''))
           (js_prop data ''file_url''))
           (js_prop data ''downloadUrl''))
           (js_prop data ''download_url''))
           (js_prop data ''resultUrl''))
           (js_prop data ''result_url''))"

text \<open>
  The loop of \<^verbatim>\<open>kieUploadBuffer\<close> over its candidates. A call that throws, a status
  that is not ok, and an ok answer with no string under any of the URL names all go on to
  the next candidate.
\<close>

fun upload_loop :: "env \<Rightarrow> string \<Rightarrow> payload \<Rightarrow> string list \<Rightarrow> state \<Rightarrow> (error + string) \<times> state" where
  "upload_loop env apiKey form [] st =
     (Inl (Error ''KIE file upload failed (unknown upload endpoint/response). You may need to set KIE_API_BASE or update upload endpoint candidates.''), st)"
| "upload_loop env apiKey form (u # rest) st =
     (case fetchJson env (upload_request apiKey u form) st of
        (Inl e, st1) \<Rightarrow> upload_loop env apiKey form rest st1
      | (Inr r, st1) \<Rightarrow>
          if \<not> resp_ok r then upload_loop env apiKey form rest st1
          else (case upload_file_url (rs_json r) of
                  JStr s \<Rightarrow> if s \<noteq> [] then (Inr s, st1) else upload_loop env apiKey form rest st1
                | _ \<Rightarrow> upload_loop env apiKey form rest st1))"

definition upload_candidates :: "env \<Rightarrow> string list" where
  "upload_candidates env =
     [KIE_API_BASE env @ ''/api/v1/files/upload'',
      KIE_API_BASE env @ ''/api/v1/file/upload'',
      KIE_API_BASE env @ ''/api/v1/upload'']"

definition kieUploadBuffer ::
  "env \<Rightarrow> string \<Rightarrow> byte list \<Rightarrow> string \<Rightarrow> jsval \<Rightarrow> state \<Rightarrow> (error + string) \<times> state" where
  "kieUploadBuffer env apiKey buffer filename mimeType st =
     (if apiKey = [] then (Inl (Error ''Missing APIKey''), st)
      else if buffer = [] then (Inl (Error ''Empty upload''), st)
      else
        let mime = js_or mimeType (JStr (detectImageMime buffer)) in
        case (if filename \<noteq> [] then Inr filename
              else (case extFromMime mime of Inl e \<Rightarrow> Inl e | Inr ext \<Rightarrow> Inr (''upload.'' @ ext))) of
          Inl e \<Rightarrow> (Inl e, st)
        | Inr name \<Rightarrow>
           (case js_String mime of
              Inl e \<Rightarrow> (Inl e, st)
            | Inr t \<Rightarrow> upload_loop env apiKey (FormFile name mime buffer) (upload_candidates env) st))"

definition mapAspectRatio :: "jsval \<Rightarrow> error + string" where
  "mapAspectRatio sizeOrRatio =
     (case js_String (js_or sizeOrRatio (JStr [])) of
        Inl e \<Rightarrow> Inl e
      | Inr s \<Rightarrow>
         (let v = trim s in
          if v = [] then Inr ''16:9''
          else if v = ''16:9'' \<or> v = ''9:16'' \<or> v = ''1:1'' \<or> v = ''4:3'' \<or> v = ''3:4'' then Inr v
          else if toLowerCase v = ''auto'' then Inr ''Auto''
          else Inr ''16:9''))"

definition isVeoModel :: "string \<Rightarrow> bool" where
  "isVeoModel model = str_includes (toLowerCase model) ''veo''"

definition isSoraModel :: "string \<Rightarrow> bool" where
  "isSoraModel model = str_includes (toLowerCase model) ''sora''"

definition mapSoraMarketModel :: "string \<Rightarrow> bool \<Rightarrow> string" where
  "mapSoraMarketModel model isImageToVideo =
     (let m = toLowerCase model;
          kind = (if isImageToVideo then ''image-to-video'' else ''text-to-video'')
      in if m = ''sora-2-pro'' \<or> m = ''sora_2_pro'' \<or> str_includes m ''pro'' then ''sora-2-pro/'' @ kind
         else if m = ''sora-2-all'' \<or> m = ''sora_2_all'' \<or> str_includes m ''all'' then ''sora-2-pro/'' @ kind
         else ''sora-2/'' @ kind)"

definition json_headers :: "string \<Rightarrow> (string \<times> string) list" where
  "json_headers apiKey =
     [(''Authorization'', ''Bearer '' @ apiKey), (''Content-Type'', ''application/json''),
      (''Accept'', ''application/json'')]"

definition get_headers :: "string \<Rightarrow> (string \<times> string) list" where
  "get_headers apiKey = [(''Authorization'', ''Bearer '' @ apiKey), (''Accept'', ''application/json'')]"

text \<open>\<^verbatim>\<open>json?.data?.taskId || json?.data?.task_id || json?.taskId || json?.task_id\<close>\<close>

definition response_taskId :: "jsval \<Rightarrow> jsval" where
  "response_taskId json =
     js_or (js_or (js_or (js_prop (js_prop json ''data'') ''taskId'')
                         (js_prop (js_prop json ''data'') ''task_id''))
                  (js_prop json ''taskId''))
           (js_prop json ''task_id'')"

definition failed_message :: "env \<Rightarrow> string \<Rightarrow> response \<Rightarrow> string" where
  "failed_message env what r =
     what @ '' failed ('' @ nat_to_string (rs_status r) @ ''): '' @ JSON_stringify env (rs_json r)"

definition createTask_request :: "env \<Rightarrow> string \<Rightarrow> string \<Rightarrow> jsval \<Rightarrow> request" where
  "createTask_request env apiKey model input =
     \<lparr>rq_url = KIE_API_BASE env @ ''/api/v1/jobs/createTask'', rq_method = ''POST'',
      rq_headers = json_headers apiKey,
      rq_body = JsonBody (JObj [(''model'', JStr model), (''input'', input)])\<rparr>"

definition kieCreateTask :: "env \<Rightarrow> string \<Rightarrow> string \<Rightarrow> jsval \<Rightarrow> state \<Rightarrow> (error + jsval) \<times> state" where
  "kieCreateTask env apiKey model input st =
     (case fetchJson env (createTask_request env apiKey model input) st of
        (Inl e, st1) \<Rightarrow> (Inl e, st1)
      | (Inr r, st1) \<Rightarrow>
          if \<not> resp_ok r then (Inl (Error (failed_message env ''KIE createTask'' r)), st1)
          else
            let taskId = response_taskId (rs_json r) in
            if \<not> truthy taskId
            then (Inl (Error (''KIE createTask: missing taskId: '' @ JSON_stringify env (rs_json r))), st1)
            else (Inr taskId, st1))"

definition uri_malformed :: error where
  "uri_malformed = URIError ''URI malformed''"

definition kieRecordInfo :: "env \<Rightarrow> string \<Rightarrow> string \<Rightarrow> state \<Rightarrow> (error + jsval) \<times> state" where
  "kieRecordInfo env apiKey taskId st =
     (case encodeURIComponent env taskId of
        None \<Rightarrow> (Inl uri_malformed, st)
      | Some enc \<Rightarrow>
         (case fetchJson env
                 \<lparr>rq_url = KIE_API_BASE env @ ''/api/v1/jobs/recordInfo?taskId='' @ enc,
                  rq_method = ''GET'', rq_headers = get_headers apiKey, rq_body = NoBody\<rparr> st of
            (Inl e, st1) \<Rightarrow> (Inl e, st1)
          | (Inr r, st1) \<Rightarrow>
              if \<not> resp_ok r then (Inl (Error (failed_message env ''KIE recordInfo'' r)), st1)
              else (Inr (rs_json r), st1)))"

definition kieVeoGenerate :: "env \<Rightarrow> string \<Rightarrow> jsval \<Rightarrow> state \<Rightarrow> (error + jsval) \<times> state" where
  "kieVeoGenerate env apiKey body st =
     (case fetchJson env
             \<lparr>rq_url = KIE_API_BASE env @ ''/api/v1/veo/generate'', rq_method = ''POST'',
              rq_headers = json_headers apiKey, rq_body = JsonBody body\<rparr> st of
        (Inl e, st1) \<Rightarrow> (Inl e, st1)
      | (Inr r, st1) \<Rightarrow>
          if \<not> resp_ok r then (Inl (Error (failed_message env ''KIE Veo generate'' r)), st1)
          else
            let taskId = response_taskId (rs_json r) in
            if \<not> truthy taskId
            then (Inl (Error (''KIE Veo: missing taskId: '' @ JSON_stringify env (rs_json r))), st1)
            else (Inr taskId, st1))"

definition kieVeoRecordInfo :: "env \<Rightarrow> string \<Rightarrow> string \<Rightarrow> state \<Rightarrow> (error + jsval) \<times> state" where
  "kieVeoRecordInfo env apiKey taskId st =
     (case encodeURIComponent env taskId of
        None \<Rightarrow> (Inl uri_malformed, st)
      | Some enc \<Rightarrow>
         (case fetchJson env
                 \<lparr>rq_url = KIE_API_BASE env @ ''/api/v1/veo/record-info?taskId='' @ enc,
                  rq_method = ''GET'', rq_headers = get_headers apiKey, rq_body = NoBody\<rparr> st of
            (Inl e, st1) \<Rightarrow> (Inl e, st1)
          | (Inr r, st1) \<Rightarrow>
              if \<not> resp_ok r then (Inl (Error (failed_message env ''KIE Veo record-info'' r)), st1)
              else (Inr (rs_json r), st1)))"

subsection \<open>Image generation and the synchronous wait\<close>

definition image_candidates :: "env \<Rightarrow> (string \<times> string) list" where
  "image_candidates env =
     [(KIE_API_BASE env @ ''/api/v1/gpt-image/generate'', KIE_API_BASE env @ ''/api/v1/gpt-image/record-info''),
      (KIE_API_BASE env @ ''/api/v1/gpt-image/generate'', KIE_API_BASE env @ ''/api/v1/gpt-image/recordInfo''),
      (KIE_API_BASE env @ ''/api/v1/image/generate'', KIE_API_BASE env @ ''/api/v1/image/record-info''),
      (KIE_API_BASE env @ ''/api/v1/images/generate'', KIE_API_BASE env @ ''/api/v1/images/record-info'')]"

definition image_request :: "string \<Rightarrow> string \<Rightarrow> jsval \<Rightarrow> request" where
  "image_request apiKey gen body =
     \<lparr>rq_url = gen, rq_method = ''POST'', rq_headers = json_headers apiKey, rq_body = JsonBody body\<rparr>"

text \<open>
  The loop of \<^verbatim>\<open>kieImageGenerate\<close>: as for uploads, an ok answer with no task id goes on
  to the next candidate.
\<close>

fun image_loop ::
  "env \<Rightarrow> string \<Rightarrow> jsval \<Rightarrow> (string \<times> string) list \<Rightarrow> state \<Rightarrow> (error + jsval \<times> string) \<times> state" where
  "image_loop env apiKey body [] st =
     (Inl (Error ''KIE image generate failed (unknown endpoint/response).''), st)"
| "image_loop env apiKey body ((gen, rec) # rest) st =
     (case fetchJson env (image_request apiKey gen body) st of
        (Inl e, st1) \<Rightarrow> image_loop env apiKey body rest st1
      | (Inr r, st1) \<Rightarrow>
          if \<not> resp_ok r then image_loop env apiKey body rest st1
          else
            let taskId = response_taskId (rs_json r) in
            if truthy taskId then (Inr (taskId, rec), st1)
            else image_loop env apiKey body rest st1)"

definition kieImageGenerate :: "env \<Rightarrow> string \<Rightarrow> jsval \<Rightarrow> state \<Rightarrow> (error + jsval \<times> string) \<times> state" where
  "kieImageGenerate env apiKey body st = image_loop env apiKey body (image_candidates env) st"

text \<open>The poll of a record, \<open>enc\<close> being the encoded task id.\<close>

definition record_request :: "string \<Rightarrow> string \<Rightarrow> string \<Rightarrow> request" where
  "record_request apiKey recordBase enc =
     \<lparr>rq_url = recordBase @ ''?taskId='' @ enc, rq_method = ''GET'',
      rq_headers = get_headers apiKey, rq_body = NoBody\<rparr>"

text \<open>\<^verbatim>\<open>encodeURIComponent(taskId)\<close> converts the task id to a string first.\<close>

definition kieImageRecordInfo ::
  "env \<Rightarrow> string \<Rightarrow> string \<Rightarrow> jsval \<Rightarrow> state \<Rightarrow> (error + jsval) \<times> state" where
  "kieImageRecordInfo env apiKey recordBase taskId st =
     (case js_String taskId of
        Inl e \<Rightarrow> (Inl e, st)
      | Inr tid \<Rightarrow>
         (case encodeURIComponent env tid of
            None \<Rightarrow> (Inl uri_malformed, st)
          | Some enc \<Rightarrow>
             (case fetchJson env (record_request apiKey recordBase enc) st of
                (Inl e, st1) \<Rightarrow> (Inl e, st1)
              | (Inr r, st1) \<Rightarrow>
                  if \<not> resp_ok r then (Inl (Error (failed_message env ''KIE image record-info'' r)), st1)
                  else (Inr (rs_json r), st1))))"

text \<open>What \<^verbatim>\<open>waitForKieImageResult\<close> returns for a completed record.\<close>

definition completed_urls :: "jsval \<Rightarrow> jsval list" where
  "completed_urls json =
     (let data = js_nc (js_prop json ''data'') (JObj []);
          response = js_nc (js_prop data ''response'') (JObj []);
          urls = js_or (js_or (js_prop response ''resultUrls'') (js_prop response ''result_urls'')) (JArr [])
      in case urls of
           JArr (x # xs) \<Rightarrow> x # xs
         | _ \<Rightarrow> (let first = extractFirstResultUrl json in if truthy first then [first] else []))"

text \<open>What it throws for a failed one: \<^verbatim>\<open>new Error(v)\<close> converts \<open>v\<close> to a string.\<close>

definition failed_error :: "jsval \<Rightarrow> error" where
  "failed_error json =
     (let data = js_nc (js_prop json ''data'') (JObj []);
          v = js_or (js_or (js_or (js_prop data ''errorMessage'') (js_prop data ''message''))
                           (js_prop json ''msg''))
                    (JStr ''image generation failed'')
      in case js_String v of Inl e \<Rightarrow> e | Inr m \<Rightarrow> Error m)"

text \<open>
  The loop of \<^verbatim>\<open>waitForKieImageResult\<close>, from its start time on. Nothing in the code
  bounds the number of rounds, so not returning is the value \<open>None\<close>.
\<close>

partial_function (option) wait_loop ::
  "env \<Rightarrow> string \<Rightarrow> string \<Rightarrow> jsval \<Rightarrow> nat \<Rightarrow> state \<Rightarrow> ((error + jsval list) \<times> state) option" where
  "wait_loop env apiKey recordBase taskId start st =
     (if clock st - start < IMAGE_SYNC_MAX_WAIT_MS env then
        (case kieImageRecordInfo env apiKey recordBase taskId st of
           (Inl e, st1) \<Rightarrow> Some (Inl e, st1)
         | (Inr json, st1) \<Rightarrow>
            (case normalizeKieStatusToSimple json of
               Inl e \<Rightarrow> Some (Inl e, st1)
             | Inr status \<Rightarrow>
                 if status = ''completed'' then Some (Inr (completed_urls json), st1)
                 else if status = ''failed'' then Some (Inl (failed_error json), st1)
                 else wait_loop env apiKey recordBase taskId start
                        (sleep env (IMAGE_SYNC_POLL_MS env) st1)))
      else Some (Inl (Error ''Image generation timed out''), st))"

definition waitForKieImageResult ::
  "env \<Rightarrow> string \<Rightarrow> string \<Rightarrow> jsval \<Rightarrow> state \<Rightarrow> ((error + jsval list) \<times> state) option" where
  "waitForKieImageResult env apiKey recordBase taskId st =
     wait_loop env apiKey recordBase taskId (clock st) st"

section \<open>The request handlers\<close>

text \<open>
  What a handler reads of the request Express hands it: the \<^verbatim>\<open>authorization\<close> header,
  \<^verbatim>\<open>req.query.key\<close>, the one path parameter of the route (\<^verbatim>\<open>req.params.taskId\<close>,
  \<^verbatim>\<open>req.params[0]\<close>), the parsed body and the files \<^verbatim>\<open>multer\<close> collected. The body
  parsers run before the handlers and are not part of the model.
\<close>

record upload_file =
  f_originalname :: string
  f_mimetype :: string
  f_buffer :: "byte list"

record http_request =
  req_authorization :: "string option"
  req_query_key :: jsval
  req_param :: string
  req_body :: jsval
  req_files :: "upload_file list"

datatype reply_body = JsonReply jsval | TextReply string | StreamReply "byte list"

text \<open>\<open>rp_headers\<close>: the \<^verbatim>\<open>res.setHeader\<close> calls made, in order.\<close>

record reply =
  rp_status :: nat
  rp_headers :: "(string \<times> string) list"
  rp_body :: reply_body

text \<open>
  A handler answers, or an exception leaves it (the handlers are \<^verbatim>\<open>async\<close>, so nothing
  answers the request then).
\<close>

datatype outcome = Replied reply | Unhandled error

definition json_reply :: "nat \<Rightarrow> jsval \<Rightarrow> reply" where
  "json_reply code v = \<lparr>rp_status = code, rp_headers = [], rp_body = JsonReply v\<rparr>"

text \<open>\<^verbatim>\<open>String(err?.message || err)\<close>\<close>

definition error_text :: "error \<Rightarrow> string" where
  "error_text e =
     (case e of
        Error m \<Rightarrow> if m \<noteq> [] then m else ''Error''
      | TypeError m \<Rightarrow> if m \<noteq> [] then m else ''TypeError''
      | URIError m \<Rightarrow> if m \<noteq> [] then m else ''URIError'')"

text \<open>The \<^verbatim>\<open>catch (err)\<close> of a handler: status 500, the text under the given key.\<close>

definition catch500 :: "string \<Rightarrow> (error + reply) \<times> state \<Rightarrow> outcome \<times> state" where
  "catch500 key r =
     (case r of
        (Inl e, st) \<Rightarrow> (Replied (json_reply 500 (JObj [(key, JStr (error_text e))])), st)
      | (Inr rp, st) \<Rightarrow> (Replied rp, st))"

text \<open>
  \<^verbatim>\<open>getBearerToken\<close>: the header matched against \<^verbatim>\<open>/^Bearer\s+(.+)$/i\<close>, the group
  trimmed. After \<^verbatim>\<open>Bearer\<close> (in any case) comes white space, at least one character of
  it, and the group is what follows all of it; the group cannot hold a line end (line
  feed, carriage return, U+2028, U+2029), which \<^verbatim>\<open>.\<close> does not match. When nothing
  follows the white space the match, if there is one, gives the group a white space
  character, which trims to the empty string.
\<close>

definition has_line_end :: "string \<Rightarrow> bool" where
  "has_line_end s =
     (list_ex (\<lambda>c. (of_char c :: nat) = 10 \<or> (of_char c :: nat) = 13) s
      \<or> str_includes s (map char_of [0xE2, 0x80, 0xA8 :: nat])
      \<or> str_includes s (map char_of [0xE2, 0x80, 0xA9 :: nat]))"

definition getBearerToken :: "http_request \<Rightarrow> string" where
  "getBearerToken req =
     (let h = (case req_authorization req of Some v \<Rightarrow> v | None \<Rightarrow> []);
          rest = drop 6 h;
          group = trimStart rest
      in if toLowerCase (take 6 h) = ''bearer'' \<and> group \<noteq> rest \<and> \<not> has_line_end group
         then trimEnd group
         else [])"

definition getApiKeyFromReq :: "http_request \<Rightarrow> error + string" where
  "getApiKeyFromReq req =
     (let bearer = getBearerToken req
      in if bearer \<noteq> [] then Inr bearer
         else (case js_String (js_or (req_query_key req) (JStr [])) of
                 Inl e \<Rightarrow> Inl e
               | Inr q \<Rightarrow> Inr (trim q)))"

subsection \<open>The Kling surface\<close>

definition text2video_input :: "string \<Rightarrow> string \<Rightarrow> string \<Rightarrow> jsval" where
  "text2video_input p aspect_ratio duration =
     JObj [(''prompt'', JStr p), (''aspect_ratio'', JStr aspect_ratio),
           (''duration'', JStr duration), (''sound'', JBool False)]"

definition kling_text2video_try :: "env \<Rightarrow> string \<Rightarrow> http_request \<Rightarrow> state \<Rightarrow> (error + reply) \<times> state" where
  "kling_text2video_try env apiKey req st =
     (let body = js_or (req_body req) (JObj []) in
      case js_String (js_or (js_prop body ''prompt'') (JStr [])) of
        Inl e \<Rightarrow> (Inl e, st)
      | Inr p \<Rightarrow>
         (case mapAspectRatio (js_prop body ''aspect_ratio'') of
            Inl e \<Rightarrow> (Inl e, st)
          | Inr aspect_ratio \<Rightarrow>
             (case js_String (js_or (js_prop body ''duration'') (JStr ''5'')) of
                Inl e \<Rightarrow> (Inl e, st)
              | Inr duration \<Rightarrow>
                 (let model = ''kling-2.6/text-to-video'';
                      input = text2video_input (trim p) aspect_ratio duration
                  in case kieCreateTask env apiKey model input st of
                       (Inl e, st1) \<Rightarrow> (Inl e, st1)
                     | (Inr taskId, st1) \<Rightarrow>
                        (Inr (json_reply 200 (JObj [(''data'', JObj [(''task_id'', taskId)])])),
                         log_usage env apiKey
                           \<lparr>log_created_at = nowUnix st1, log_model_name = model,
                            log_prompt = trim p, log_image_count = 0,
                            log_path = ''/kling/v1/videos/text2video'', log_kind = ''create''\<rparr>
                           st1)))))"

definition kling_text2video :: "env \<Rightarrow> http_request \<Rightarrow> state \<Rightarrow> outcome \<times> state" where
  "kling_text2video env req st =
     (let apiKey = getBearerToken req
      in if apiKey = []
         then (Replied (json_reply 401 (JObj [(''message'', JStr ''Missing Authorization Bearer APIKey'')])), st)
         else catch500 ''message'' (kling_text2video_try env apiKey req st))"

definition image2video_input :: "string \<Rightarrow> string \<Rightarrow> string \<Rightarrow> string \<Rightarrow> jsval" where
  "image2video_input p aspect_ratio duration fileUrl =
     JObj [(''prompt'', JStr p), (''aspect_ratio'', JStr aspect_ratio),
           (''duration'', JStr duration), (''sound'', JBool False),
           (''image_urls'', JArr [JStr fileUrl])]"

definition kling_image2video_try :: "env \<Rightarrow> string \<Rightarrow> http_request \<Rightarrow> state \<Rightarrow> (error + reply) \<times> state" where
  "kling_image2video_try env apiKey req st =
     (let body = js_or (req_body req) (JObj []) in
      case js_String (js_or (js_prop body ''prompt'') (JStr [])) of
        Inl e \<Rightarrow> (Inl e, st)
      | Inr p \<Rightarrow>
         (case js_String (js_or (js_prop body ''duration'') (JStr ''5'')) of
            Inl e \<Rightarrow> (Inl e, st)
          | Inr duration \<Rightarrow>
             (let aspect_ratio = ''16:9'' in
              case js_String (js_or (js_prop body ''image'') (JStr [])) of
                Inl e \<Rightarrow> (Inl e, st)
              | Inr i \<Rightarrow>
                 (let b64 = trim i in
                  if b64 = [] then (Inr (json_reply 400 (JObj [(''message'', JStr ''Missing image (base64)'')])), st)
                  else
                    let buffer = from_base64 env b64;
                        mime = detectImageMime buffer
                    in case extFromMime (JStr mime) of
                         Inl e \<Rightarrow> (Inl e, st)
                       | Inr ext \<Rightarrow>
                          (case kieUploadBuffer env apiKey buffer (''kling-input.'' @ ext) (JStr mime) st of
                             (Inl e, st1) \<Rightarrow> (Inl e, st1)
                           | (Inr fileUrl, st1) \<Rightarrow>
                              (let model = ''kling-2.6/image-to-video'';
                                   input = image2video_input (trim p) aspect_ratio duration fileUrl
                               in case kieCreateTask env apiKey model input st1 of
                                    (Inl e, st2) \<Rightarrow> (Inl e, st2)
                                  | (Inr taskId, st2) \<Rightarrow>
                                     (Inr (json_reply 200 (JObj [(''data'', JObj [(''task_id'', taskId)])])),
                                      log_usage env apiKey
                                        \<lparr>log_created_at = nowUnix st2, log_model_name = model,
                                         log_prompt = trim p, log_image_count = 1,
                                         log_path = ''/kling/v1/videos/image2video'',
                                         log_kind = ''create''\<rparr>
                                        st2)))))))"

definition kling_image2video :: "env \<Rightarrow> http_request \<Rightarrow> state \<Rightarrow> outcome \<times> state" where
  "kling_image2video env req st =
     (let apiKey = getBearerToken req
      in if apiKey = []
         then (Replied (json_reply 401 (JObj [(''message'', JStr ''Missing Authorization Bearer APIKey'')])), st)
         else catch500 ''message'' (kling_image2video_try env apiKey req st))"

subsection \<open>The video surface\<close>

text \<open>
  \<^verbatim>\<open>String(req.body.k || '').trim()\<close>, outside the handler's \<^verbatim>\<open>try\<close>: reading a
  property of a missing body throws.
\<close>

definition body_field :: "http_request \<Rightarrow> string \<Rightarrow> error + string" where
  "body_field req k =
     (if nullish (req_body req) then Inl (TypeError ''Cannot read properties of undefined'')
      else case js_String (js_or (js_prop (req_body req) k) (JStr [])) of
             Inl e \<Rightarrow> Inl e
           | Inr v \<Rightarrow> Inr (trim v))"

definition create_log :: "state \<Rightarrow> string \<Rightarrow> string \<Rightarrow> nat \<Rightarrow> usage_log" where
  "create_log st model p n =
     \<lparr>log_created_at = nowUnix st, log_model_name = model, log_prompt = p,
      log_image_count = n, log_path = ''/v1/videos'', log_kind = ''create''\<rparr>"

definition veo_create :: "env \<Rightarrow> string \<Rightarrow> string \<Rightarrow> string \<Rightarrow> string \<Rightarrow> state \<Rightarrow> (error + reply) \<times> state" where
  "veo_create env apiKey model p sz st =
     (case mapAspectRatio (JStr sz) of
        Inl e \<Rightarrow> (Inl e, st)
      | Inr aspectRatio \<Rightarrow>
         (let kieModel = (if str_includes (toLowerCase model) ''fast'' then ''veo3_fast'' else ''veo3'')
          in case kieVeoGenerate env apiKey
                    (JObj [(''prompt'', JStr p), (''model'', JStr kieModel),
                           (''aspectRatio'', JStr aspectRatio), (''imageUrls'', JArr [])]) st of
               (Inl e, st1) \<Rightarrow> (Inl e, st1)
             | (Inr taskId, st1) \<Rightarrow>
                (Inr (json_reply 200 (JObj [(''id'', taskId), (''status'', JStr ''processing'')])),
                 log_usage env apiKey (create_log st1 (''veo:'' @ kieModel) p 0) st1)))"

definition sora_create ::
  "env \<Rightarrow> string \<Rightarrow> string \<Rightarrow> string \<Rightarrow> string \<Rightarrow> string \<Rightarrow> string \<Rightarrow> upload_file list \<Rightarrow> state
     \<Rightarrow> (error + reply) \<times> state" where
  "sora_create env apiKey model p seconds sz resolution fs st =
     (let hasFile = (fs \<noteq> []);
          marketModel = mapSoraMarketModel model hasFile
      in case mapAspectRatio (JStr sz) of
           Inl e \<Rightarrow> (Inl e, st)
         | Inr aspect_ratio \<Rightarrow>
            (let input0 = [(''prompt'', JStr p), (''aspect_ratio'', JStr aspect_ratio)]
                          @ (if seconds \<noteq> [] then [(''duration'', JStr seconds)] else [])
                          @ (if resolution \<noteq> [] then [(''resolution'', JStr resolution)] else [])
             in case (case fs of
                        [] \<Rightarrow> (Inr input0, st)
                      | f # _ \<Rightarrow>
                          (case kieUploadBuffer env apiKey (f_buffer f) (f_originalname f)
                                  (JStr (f_mimetype f)) st of
                             (Inl e, st1) \<Rightarrow> (Inl e, st1)
                           | (Inr fileUrl, st1) \<Rightarrow>
                               (Inr (input0 @ [(''image_urls'', JArr [JStr fileUrl])]), st1))) of
                  (Inl e, st1) \<Rightarrow> (Inl e, st1)
                | (Inr input, st1) \<Rightarrow>
                   (case kieCreateTask env apiKey marketModel (JObj input) st1 of
                      (Inl e, st2) \<Rightarrow> (Inl e, st2)
                    | (Inr taskId, st2) \<Rightarrow>
                       (Inr (json_reply 200
                               (JObj [(''task_id'', taskId), (''id'', taskId),
                                      (''status'', JStr ''processing'')])),
                        log_usage env apiKey
                          (create_log st2 marketModel p (if hasFile then 1 else 0)) st2))))"

definition videos_create_try ::
  "env \<Rightarrow> string \<Rightarrow> string \<Rightarrow> string \<Rightarrow> string \<Rightarrow> string \<Rightarrow> string \<Rightarrow> upload_file list \<Rightarrow> state
     \<Rightarrow> (error + reply) \<times> state" where
  "videos_create_try env apiKey model p seconds sz resolution fs st =
     (if isVeoModel model then veo_create env apiKey model p sz st
      else if isSoraModel model then sora_create env apiKey model p seconds sz resolution fs st
      else (Inr (json_reply 400
                   (JObj [(''error'', JStr (''Unsupported model: ''
                                            @ (if model \<noteq> [] then model else ''(empty)'')))])), st))"

text \<open>The five fields read before the \<^verbatim>\<open>try\<close>, in the order of the source.\<close>

definition videos_fields :: "http_request \<Rightarrow> error + string \<times> string \<times> string \<times> string \<times> string" where
  "videos_fields req =
     (case body_field req ''model'' of
        Inl e \<Rightarrow> Inl e
      | Inr model \<Rightarrow>
         (case body_field req ''prompt'' of
            Inl e \<Rightarrow> Inl e
          | Inr p \<Rightarrow>
             (case body_field req ''seconds'' of
                Inl e \<Rightarrow> Inl e
              | Inr seconds \<Rightarrow>
                 (case body_field req ''size'' of
                    Inl e \<Rightarrow> Inl e
                  | Inr sz \<Rightarrow>
                     (case body_field req ''resolution'' of
                        Inl e \<Rightarrow> Inl e
                      | Inr resolution \<Rightarrow> Inr (model, p, seconds, sz, resolution))))))"

definition videos_create :: "env \<Rightarrow> http_request \<Rightarrow> state \<Rightarrow> outcome \<times> state" where
  "videos_create env req st =
     (let apiKey = getBearerToken req
      in if apiKey = []
         then (Replied (json_reply 401 (JObj [(''error'', JStr ''Missing Authorization Bearer APIKey'')])), st)
         else
           (case videos_fields req of
              Inl e \<Rightarrow> (Unhandled e, st)
            | Inr (model, p, seconds, sz, resolution) \<Rightarrow>
                catch500 ''error''
                  (videos_create_try env apiKey model p seconds sz resolution (req_files req) st)))"

definition veo_poll_reply :: "jsval \<Rightarrow> reply" where
  "veo_poll_reply json =
     (let data = js_nc (js_prop json ''data'') (JObj []);
          sf = js_prop data ''successFlag''
      in if sf = JNum 1 then
           json_reply 200
             (JObj [(''status'', JStr ''completed''),
                    (''video_url'',
                       js_or (js_index0 (js_or (js_prop (js_prop data ''response'') ''resultUrls'') (JArr [])))
                             JNull),
                    (''progress'', JNum 1)])
         else if sf = JNum 2 \<or> sf = JNum 3 then
           json_reply 200
             (JObj [(''status'', JStr ''failed''),
                    (''message'',
                       js_or (js_or (js_prop data ''errorMessage'') (js_prop json ''msg''))
                             (JStr ''generation failed''))])
         else json_reply 200 (JObj [(''status'', JStr ''processing''), (''progress'', JNum 0)]))"

definition market_poll_reply :: "jsval \<Rightarrow> error + reply" where
  "market_poll_reply json =
     (case normalizeKieStatusToSimple json of
        Inl e \<Rightarrow> Inl e
      | Inr status \<Rightarrow>
         (let u = extractFirstResultUrl json;
              data = js_nc (js_prop json ''data'') (JObj []);
              progress = (case js_prop data ''progress'' of JNum n \<Rightarrow> JNum n | _ \<Rightarrow> JUndefined)
          in if status = ''completed'' then
               Inr (json_reply 200
                      (JObj [(''status'', JStr ''completed''), (''video_url'', u), (''progress'', JNum 1)]))
             else if status = ''failed'' then
               Inr (json_reply 200
                      (JObj [(''status'', JStr ''failed''),
                             (''message'',
                                js_or (js_or (js_or (js_prop data ''errorMessage'') (js_prop data ''message''))
                                             (js_prop json ''msg''))
                                      (JStr ''generation failed''))]))
             else Inr (json_reply 200
                         (JObj [(''status'', JStr ''processing''),
                                (''progress'', js_nc progress (JNum 0))]))))"

definition videos_poll_try :: "env \<Rightarrow> string \<Rightarrow> string \<Rightarrow> state \<Rightarrow> (error + reply) \<times> state" where
  "videos_poll_try env apiKey taskId st =
     (if startsWith (toLowerCase taskId) ''veo'' then
        (case kieVeoRecordInfo env apiKey taskId st of
           (Inl e, st1) \<Rightarrow> (Inl e, st1)
         | (Inr json, st1) \<Rightarrow> (Inr (veo_poll_reply json), st1))
      else
        (case kieRecordInfo env apiKey taskId st of
           (Inl e, st1) \<Rightarrow> (Inl e, st1)
         | (Inr json, st1) \<Rightarrow> (market_poll_reply json, st1)))"

definition videos_poll :: "env \<Rightarrow> http_request \<Rightarrow> state \<Rightarrow> outcome \<times> state" where
  "videos_poll env req st =
     (let apiKey = getBearerToken req
      in if apiKey = []
         then (Replied (json_reply 401 (JObj [(''error'', JStr ''Missing Authorization Bearer APIKey'')])), st)
         else catch500 ''error'' (videos_poll_try env apiKey (req_param req) st))"

subsection \<open>The chat surface\<close>

definition chat_request :: "string \<Rightarrow> string \<Rightarrow> jsval \<Rightarrow> request" where
  "chat_request apiKey u body =
     \<lparr>rq_url = u, rq_method = ''POST'',
      rq_headers = [(''Authorization'', ''Bearer '' @ apiKey), (''Content-Type'', ''application/json''),
                    (''Accept'', ''text/event-stream, application/json'')],
      rq_body = JsonBody body\<rparr>"

text \<open>
  The loop over the chat candidates. Its \<^verbatim>\<open>catch\<close> covers the whole round, so a throw
  after the headers were copied goes on to the next candidate with those headers set.
\<close>

fun chat_loop ::
  "env \<Rightarrow> string \<Rightarrow> http_request \<Rightarrow> (string \<times> string) list \<Rightarrow> string list \<Rightarrow> state \<Rightarrow> outcome \<times> state" where
  "chat_loop env apiKey req hdrs [] st =
     (Replied \<lparr>rp_status = 502, rp_headers = hdrs,
               rp_body = JsonReply (JObj [(''error'', JStr ''Chat endpoint is not available on this KIE base. If KIE provides OpenAI-compatible chat, set KIE_API_BASE to that host/path.'')])\<rparr>,
      st)"
| "chat_loop env apiKey req hdrs (u # rest) st =
     (case fetch env (chat_request apiKey u (js_or (req_body req) (JObj []))) st of
        (Rejected e, st1) \<Rightarrow> chat_loop env apiKey req hdrs rest st1
      | (Responded r, st1) \<Rightarrow>
          if rs_status r = 404 then chat_loop env apiKey req hdrs rest st1
          else
            let hdrs1 = hdrs @ filter (\<lambda>kv. toLowerCase (fst kv) \<noteq> ''content-encoding'') (rs_headers r)
            in case js_String (js_or (js_prop (req_body req) ''model'') (JStr ''chat'')) of
                 Inl e \<Rightarrow> chat_loop env apiKey req hdrs1 rest st1
               | Inr m \<Rightarrow>
                  (Replied \<lparr>rp_status = rs_status r, rp_headers = hdrs1,
                            rp_body = (case rs_bytes r of None \<Rightarrow> TextReply [] | Some b \<Rightarrow> StreamReply b)\<rparr>,
                   log_usage env apiKey
                     \<lparr>log_created_at = nowUnix st1, log_model_name = m, log_prompt = ''(chat)'',
                      log_image_count = 0, log_path = ''/v1/chat/completions'', log_kind = ''chat''\<rparr>
                     st1))"

definition chat_completions :: "env \<Rightarrow> http_request \<Rightarrow> state \<Rightarrow> outcome \<times> state" where
  "chat_completions env req st =
     (let apiKey = getBearerToken req
      in if apiKey = []
         then (Replied (json_reply 401 (JObj [(''error'', JStr ''Missing Authorization Bearer APIKey'')])), st)
         else chat_loop env apiKey req []
                [KIE_API_BASE env @ ''/v1/chat/completions'',
                 KIE_API_BASE env @ ''/api/v1/chat/completions''] st)"

subsection \<open>The Gemini surface\<close>

definition as_array :: "jsval \<Rightarrow> jsval list" where
  "as_array v = (case v of JArr xs \<Rightarrow> xs | _ \<Rightarrow> [])"

text \<open>What one part adds to \<^verbatim>\<open>texts\<close> and to \<^verbatim>\<open>images\<close>.\<close>

definition part_texts :: "jsval \<Rightarrow> string list" where
  "part_texts p = (case js_prop p ''text'' of JStr t \<Rightarrow> if trim t \<noteq> [] then [trim t] else [] | _ \<Rightarrow> [])"

definition part_images :: "jsval \<Rightarrow> (jsval \<times> jsval) list" where
  "part_images p =
     (let inline =
            js_or (js_prop p ''inline_data'')
              (if truthy (js_prop p ''inlineData'')
               then JObj [(''mime_type'', js_prop (js_prop p ''inlineData'') ''mimeType''),
                          (''data'', js_prop (js_prop p ''inlineData'') ''data'')]
               else JNull)
      in if truthy (js_prop inline ''data'')
         then [(js_or (js_prop inline ''mime_type'') (JStr ''image/png''), js_prop inline ''data'')]
         else [])"

definition newline :: char where
  "newline = char_of (10 :: nat)"

definition extractGeminiTextAndInlineImages :: "jsval \<Rightarrow> string \<times> (jsval \<times> jsval) list" where
  "extractGeminiTextAndInlineImages body =
     (let parts = concat (map (\<lambda>c. as_array (js_prop c ''parts'')) (as_array (js_prop body ''contents'')))
      in (trim (js_join [newline, newline] (concat (map part_texts parts))),
          concat (map part_images parts)))"

text \<open>The two fixed lines of \<^verbatim>\<open>simplePromptPolish\<close> and the first part of an image answer, as UTF-8.\<close>

definition polish_head :: string where
  "polish_head = map char_of
     [232, 175, 183, 229, 176, 134, 228, 187, 165, 228, 184, 139, 230, 143, 144, 231, 164,
      186, 232, 175, 141, 228, 188, 152, 229, 140, 150, 228, 184, 186, 230, 155, 180, 233,
      128, 130, 229, 144, 136, 231, 148, 159, 230, 136, 144, 233, 171, 152, 232, 180, 168,
      233, 135, 143, 232, 167, 134, 233, 162, 145, 47, 229, 155, 190, 231, 137, 135, 231,
      154, 132, 230, 143, 143, 232, 191, 176, 239, 188, 136, 228, 191, 157, 230, 140, 129,
      229, 142, 159, 230, 132, 143, 239, 188, 140, 232, 161, 165, 229, 133, 133, 231, 187,
      134, 232, 138, 130, 239, 188, 137, 239, 188, 154 :: nat]"

definition polish_foot :: string where
  "polish_foot = map char_of
     [228, 188, 152, 229, 140, 150, 232, 166, 129, 231, 130, 185, 239, 188, 154, 228, 184,
      187, 228, 189, 147, 230, 184, 133, 230, 153, 176, 227, 128, 129, 229, 156, 186, 230,
      153, 175, 47, 229, 133, 137, 231, 186, 191, 47, 233, 149, 156, 229, 164, 180, 232,
      175, 173, 232, 168, 128, 227, 128, 129, 233, 163, 142, 230, 160, 188, 227, 128, 129,
      229, 136, 134, 232, 190, 168, 231, 142, 135, 47, 231, 148, 187, 229, 185, 133, 227,
      128, 129, 233, 129, 191, 229, 133, 141, 232, 191, 157, 232, 167, 132, 229, 134, 133,
      229, 174, 185, 227, 128, 130 :: nat]"

definition done_text :: string where
  "done_text = map char_of
     [226, 156, 133, 32, 231, 148, 159, 230, 136, 144, 229, 174, 140, 230, 136, 144 :: nat]"

definition simplePromptPolish :: "string \<Rightarrow> string" where
  "simplePromptPolish t =
     (if t = [] then [] else js_join [newline] [polish_head, [], t, [], polish_foot])"

text \<open>
  \<^verbatim>\<open>Number(v)\<close>, \<open>None\<close> for \<^verbatim>\<open>NaN\<close>. The reading of a numeric string is a parameter;
  an array or an object is converted to a string first.
\<close>

definition js_Number :: "env \<Rightarrow> jsval \<Rightarrow> error + int option" where
  "js_Number env v =
     (case v of
        JUndefined \<Rightarrow> Inr None
      | JNull \<Rightarrow> Inr (Some 0)
      | JBool b \<Rightarrow> Inr (Some (if b then 1 else 0))
      | JNum n \<Rightarrow> Inr (Some n)
      | JStr t \<Rightarrow> Inr (parse_number env t)
      | JArr xs \<Rightarrow> (case js_String v of Inl e \<Rightarrow> Inl e | Inr t \<Rightarrow> Inr (parse_number env t))
      | JObj kvs \<Rightarrow> (case js_String v of Inl e \<Rightarrow> Inl e | Inr t \<Rightarrow> Inr None))"

text \<open>The uploads of the inline images, \<open>i\<close> counting them.\<close>

fun upload_inline ::
  "env \<Rightarrow> string \<Rightarrow> nat \<Rightarrow> (jsval \<times> jsval) list \<Rightarrow> state \<Rightarrow> (error + string list) \<times> state" where
  "upload_inline env apiKey i [] st = (Inr [], st)"
| "upload_inline env apiKey i ((img_mime, img_data) # rest) st =
     (case js_String img_data of
        Inl e \<Rightarrow> (Inl e, st)
      | Inr d \<Rightarrow>
         (let buf = from_base64 env d;
              mime = js_or img_mime (JStr (detectImageMime buf))
          in case extFromMime mime of
               Inl e \<Rightarrow> (Inl e, st)
             | Inr ext \<Rightarrow>
                (case kieUploadBuffer env apiKey buf
                        (''gemini-inline-'' @ nat_to_string i @ ''.'' @ ext) mime st of
                   (Inl e, st1) \<Rightarrow> (Inl e, st1)
                 | (Inr u, st1) \<Rightarrow>
                    (case upload_inline env apiKey (Suc i) rest st1 of
                       (Inl e, st2) \<Rightarrow> (Inl e, st2)
                     | (Inr us, st2) \<Rightarrow> (Inr (u # us), st2)))))"

text \<open>
  \<^verbatim>\<open>fetchBinaryAsBase64(url)\<close>; \<^verbatim>\<open>fetch\<close> converts what it is given to a string.
  \<open>rs_headers\<close> lists the headers as the \<^verbatim>\<open>Headers\<close> object does, names in lower case.
\<close>

definition fetchBinaryAsBase64 :: "env \<Rightarrow> jsval \<Rightarrow> state \<Rightarrow> (error + string \<times> string) \<times> state" where
  "fetchBinaryAsBase64 env u st =
     (case js_String u of
        Inl e \<Rightarrow> (Inl e, st)
      | Inr target \<Rightarrow>
         (case fetch env \<lparr>rq_url = target, rq_method = ''GET'', rq_headers = [], rq_body = NoBody\<rparr> st of
            (Rejected e, st1) \<Rightarrow> (Inl e, st1)
          | (Responded r, st1) \<Rightarrow>
              if \<not> resp_ok r
              then (Inl (Error (''Fetch file failed ('' @ nat_to_string (rs_status r) @ '')'')), st1)
              else
                let buf = (case rs_bytes r of None \<Rightarrow> [] | Some b \<Rightarrow> b);
                    ct = (case map_of (rs_headers r) ''content-type'' of None \<Rightarrow> [] | Some c \<Rightarrow> c);
                    mime = (if ct \<noteq> [] then ct else detectImageMime buf)
                in (Inr (mime, to_base64 env buf), st1)))"

fun fetch_parts :: "env \<Rightarrow> jsval list \<Rightarrow> state \<Rightarrow> (error + jsval list) \<times> state" where
  "fetch_parts env [] st = (Inr [], st)"
| "fetch_parts env (u # us) st =
     (case fetchBinaryAsBase64 env u st of
        (Inl e, st1) \<Rightarrow> (Inl e, st1)
      | (Inr (mime, b64), st1) \<Rightarrow>
         (case fetch_parts env us st1 of
            (Inl e, st2) \<Rightarrow> (Inl e, st2)
          | (Inr ps, st2) \<Rightarrow>
             (Inr (JObj [(''inline_data'', JObj [(''mime_type'', JStr mime), (''data'', JStr b64)])] # ps),
              st2)))"

definition candidates_reply :: "jsval list \<Rightarrow> reply" where
  "candidates_reply parts =
     json_reply 200 (JObj [(''candidates'', JArr [JObj [(''content'', JObj [(''parts'', JArr parts)])]])])"

definition generate_path :: "string \<Rightarrow> string" where
  "generate_path modelId = ''/v1beta/models/'' @ modelId @ '':generateContent''"

text \<open>The text-only branch: no call, one log entry, one text part.\<close>

definition generate_text :: "env \<Rightarrow> string \<Rightarrow> string \<Rightarrow> string \<Rightarrow> state \<Rightarrow> reply \<times> state" where
  "generate_text env apiKey modelId p st =
     (let polished = simplePromptPolish p
      in (candidates_reply
            [JObj [(''text'', js_or (js_or (JStr polished) (JStr p)) (JStr []))]],
          log_usage env apiKey
            \<lparr>log_created_at = nowUnix st,
             log_model_name = ''local-prompt-polish:'' @ (if modelId \<noteq> [] then modelId else ''text''),
             log_prompt = p, log_image_count = 0, log_path = generate_path modelId,
             log_kind = ''text''\<rparr>
            st))"

text \<open>
  The image branch. \<open>n\<close> is \<^verbatim>\<open>Math.min(4, Math.max(1, Number(...)))\<close>, \<open>None\<close> for
  \<^verbatim>\<open>NaN\<close> (which \<^verbatim>\<open>JSON.stringify\<close> writes as \<^verbatim>\<open>null\<close> and \<^verbatim>\<open>slice\<close> reads as 0).
\<close>

definition generate_image ::
  "env \<Rightarrow> string \<Rightarrow> string \<Rightarrow> jsval \<Rightarrow> string \<Rightarrow> (jsval \<times> jsval) list \<Rightarrow> state
     \<Rightarrow> ((error + reply) \<times> state) option" where
  "generate_image env apiKey modelId body p images st =
     (let config = js_prop body ''generationConfig'' in
      case js_Number env (js_or (js_prop config ''candidateCount'') (JNum 1)) of
        Inl e \<Rightarrow> Some (Inl e, st)
      | Inr num \<Rightarrow>
         (let n = (case num of None \<Rightarrow> None | Some k \<Rightarrow> Some (min 4 (max 1 k))) in
          case upload_inline env apiKey 0 images st of
            (Inl e, st1) \<Rightarrow> Some (Inl e, st1)
          | (Inr filesUrl, st1) \<Rightarrow>
             (case kieImageGenerate env apiKey
                     (JObj [(''prompt'', JStr (if p \<noteq> [] then p else ''Generate an image'')),
                            (''n'', (case n of None \<Rightarrow> JNull | Some k \<Rightarrow> JNum k)),
                            (''size'', js_or (js_prop config ''imageSize'') (JStr ''1024x1024'')),
                            (''filesUrl'', JArr (map JStr filesUrl))]) st1 of
                (Inl e, st2) \<Rightarrow> Some (Inl e, st2)
              | (Inr (taskId, recordBase), st2) \<Rightarrow>
                 (let st3 = log_usage env apiKey
                              \<lparr>log_created_at = nowUnix st2,
                               log_model_name = ''kie-image:'' @ (if modelId \<noteq> [] then modelId else ''image''),
                               log_prompt = p, log_image_count = length filesUrl,
                               log_path = generate_path modelId, log_kind = ''image-create''\<rparr>
                              st2
                  in case waitForKieImageResult env apiKey recordBase taskId st3 of
                       None \<Rightarrow> None
                     | Some (Inl e, st4) \<Rightarrow> Some (Inl e, st4)
                     | Some (Inr urls, st4) \<Rightarrow>
                        (case fetch_parts env
                                (take (case n of None \<Rightarrow> 0 | Some k \<Rightarrow> nat k) urls) st4 of
                           (Inl e, st5) \<Rightarrow> Some (Inl e, st5)
                         | (Inr ps, st5) \<Rightarrow>
                            Some (Inr (candidates_reply (JObj [(''text'', JStr done_text)] # ps)), st5))))))"

definition generateContent :: "env \<Rightarrow> http_request \<Rightarrow> state \<Rightarrow> (outcome \<times> state) option" where
  "generateContent env req st =
     (case getApiKeyFromReq req of
        Inl e \<Rightarrow> Some (Unhandled e, st)
      | Inr apiKey \<Rightarrow>
         if apiKey = []
         then Some (Replied (json_reply 401
                      (JObj [(''error'', JStr ''Missing APIKey (Authorization Bearer or ?key=...)'')])), st)
         else
           let modelId = req_param req;
               body = js_or (req_body req) (JObj []);
               extracted = extractGeminiTextAndInlineImages body;
               responseModalities = as_array (js_prop (js_prop body ''generationConfig'') ''responseModalities'');
               wantsImage = (JStr ''IMAGE'' \<in> set responseModalities
                             \<or> str_includes (toLowerCase modelId) ''image'')
           in if \<not> wantsImage \<and> snd extracted = []
              then (case generate_text env apiKey modelId (fst extracted) st of
                      (rp, st1) \<Rightarrow> Some (Replied rp, st1))
              else map_option (catch500 ''error'')
                     (generate_image env apiKey modelId body (fst extracted) (snd extracted) st))"

section \<open>Notions the properties are stated with\<close>

text \<open>The seven words the normaliser knows, and a field value that reads as one of them.\<close>

definition status_tokens :: "string list" where
  "status_tokens = [''success'', ''succeed'', ''completed'', ''done'', ''failed'', ''error'', ''fail'']"

definition token_value :: "jsval \<Rightarrow> bool" where
  "token_value v = (case js_String v of Inl e \<Rightarrow> False | Inr s \<Rightarrow> toLowerCase s \<in> set status_tokens)"

text \<open>No array of the ledger is longer than 2000.\<close>

definition bounded_ledger :: "ledger \<Rightarrow> bool" where
  "bounded_ledger L = (\<forall>k es. L k = Some es \<longrightarrow> length es \<le> 2000)"

text \<open>A log entry for the examples.\<close>

definition demo_log :: "nat \<Rightarrow> usage_log" where
  "demo_log i = \<lparr>log_created_at = i, log_model_name = ''veo:veo3'', log_prompt = ''a cat'',
                 log_image_count = 0, log_path = ''/v1/videos'', log_kind = ''create''\<rparr>"

text \<open>
  What one answer is worth to a probing loop: the URL an upload answer carries, the task
  id an image answer carries, or nothing (a throw, a status that is not ok, an ok answer
  without the field).
\<close>

definition upload_hit :: "fetch_result \<Rightarrow> string option" where
  "upload_hit fr =
     (case fr of
        Rejected e \<Rightarrow> None
      | Responded r \<Rightarrow>
          if resp_ok r
          then (case upload_file_url (rs_json r) of JStr s \<Rightarrow> if s \<noteq> [] then Some s else None | _ \<Rightarrow> None)
          else None)"

definition image_hit :: "fetch_result \<Rightarrow> jsval option" where
  "image_hit fr =
     (case fr of
        Rejected e \<Rightarrow> None
      | Responded r \<Rightarrow>
          if resp_ok r \<and> truthy (response_taskId (rs_json r)) then Some (response_taskId (rs_json r))
          else None)"

text \<open>
  \<open>probed hit rqs new found\<close>: the exchanges \<open>new\<close> are the requests \<open>rqs\<close> in their
  order, up to and including the first whose answer has a value (\<open>found = Some v\<close>), or all
  of them, none with a value (\<open>found = None\<close>).
\<close>

definition probed :: "(fetch_result \<Rightarrow> 'a option) \<Rightarrow> request list \<Rightarrow> exchange list \<Rightarrow> 'a option \<Rightarrow> bool" where
  "probed hit rqs new found =
     (map ex_request new = take (length new) rqs \<and> length new \<le> length rqs
      \<and> (case found of
            Some v \<Rightarrow> new \<noteq> [] \<and> hit (ex_result (last new)) = Some v
                       \<and> (\<forall>x \<in> set (butlast new). hit (ex_result x) = None)
          | None \<Rightarrow> length new = length rqs \<and> (\<forall>x \<in> set new. hit (ex_result x) = None)))"

text \<open>
  An environment for the examples: the upstream answers by the URL alone, from a table,
  and rejects what the table does not list; every call takes a millisecond; the library
  functions are simple stand-ins.
\<close>

definition demo_env :: "(string \<times> fetch_result) list \<Rightarrow> env" where
  "demo_env table =
     \<lparr>KIE_API_BASE = ''https://api.kie.ai'',
      IMAGE_SYNC_MAX_WAIT_MS = 5,
      IMAGE_SYNC_POLL_MS = 2,
      sha256Short = (\<lambda>k. k),
      from_base64 = (\<lambda>t. map (\<lambda>c. of_nat (of_char c)) t),
      to_base64 = (\<lambda>b. map (\<lambda>w. char_of (unat w)) b),
      encodeURIComponent = (\<lambda>t. Some t),
      JSON_stringify = (\<lambda>v. ''{}''),
      parse_number = (\<lambda>t. None),
      respond = (\<lambda>tr t rq. case map_of table (rq_url rq) of
                              Some r \<Rightarrow> r | None \<Rightarrow> Rejected (TypeError ''fetch failed'')),
      latency = (\<lambda>tr t rq. 1),
      timer_lag = (\<lambda>tr t. 0)\<rparr>"

definition answer :: "nat \<Rightarrow> jsval \<Rightarrow> fetch_result" where
  "answer code json = Responded \<lparr>rs_status = code, rs_headers = [], rs_json = json, rs_bytes = None\<rparr>"

definition state0 :: state where
  "state0 = \<lparr>clock = 0, trace = [], usageLogs = Map.empty\<rparr>"

text \<open>Three upstreams for the examples of probing.\<close>

definition upload_table_a :: "(string \<times> fetch_result) list" where
  "upload_table_a =
     [(''https://api.kie.ai/api/v1/files/upload'', answer 200 (JObj [])),
      (''https://api.kie.ai/api/v1/file/upload'',
         answer 200 (JObj [(''data'', JObj [(''url'', JStr ''https://files.example/a.png'')])]))]"

definition upload_table_b :: "(string \<times> fetch_result) list" where
  "upload_table_b =
     [(''https://api.kie.ai/api/v1/file/upload'', answer 500 (JObj [])),
      (''https://api.kie.ai/api/v1/upload'',
         answer 200 (JObj [(''fileUrl'', JStr ''https://files.example/b.png'')]))]"

definition image_table :: "(string \<times> fetch_result) list" where
  "image_table =
     [(''https://api.kie.ai/api/v1/gpt-image/generate'',
         answer 200 (JObj [(''data'', JObj [(''taskId'', JStr ''task1'')])]))]"






text \<open>Requests for the examples.\<close>

definition anonymous_request :: http_request where
  "anonymous_request =
     \<lparr>req_authorization = None, req_query_key = JUndefined, req_param = ''veo3'',
      req_body = JObj [(''model'', JStr ''veo3''), (''prompt'', JStr ''a cat'')],
      req_files = []\<rparr>"

definition request_with :: "string option \<Rightarrow> jsval \<Rightarrow> http_request" where
  "request_with header key = anonymous_request\<lparr>req_authorization := header, req_query_key := key\<rparr>"

definition text_request :: "string \<Rightarrow> http_request" where
  "text_request modelId =
     \<lparr>req_authorization = Some ''Bearer sk-1'', req_query_key = JUndefined, req_param = modelId,
      req_body = JObj [(''contents'', JArr [JObj [(''parts'', JArr [JObj [(''text'', JStr ''a cat'')]])]])],
      req_files = []\<rparr>"

text \<open>
  The inputs of the jobs submitted in a list of calls: the \<^verbatim>\<open>input\<close> member of the body of
  each call to \<^verbatim>\<open>/api/v1/jobs/createTask\<close>. \<open>new_calls\<close> are the calls made between two
  states.
\<close>

definition job_input :: "env \<Rightarrow> exchange \<Rightarrow> jsval option" where
  "job_input env x =
     (if rq_url (ex_request x) = KIE_API_BASE env @ ''/api/v1/jobs/createTask''
      then (case rq_body (ex_request x) of JsonBody b \<Rightarrow> Some (js_prop b ''input'') | _ \<Rightarrow> None)
      else None)"

definition submitted_inputs :: "env \<Rightarrow> exchange list \<Rightarrow> jsval list" where
  "submitted_inputs env tr = List.map_filter (job_input env) tr"

definition new_calls :: "state \<Rightarrow> state \<Rightarrow> exchange list" where
  "new_calls st st' = drop (length (trace st)) (trace st')"

text \<open>A Kling request that asks for 9:16, and an upstream that takes the upload and the job.\<close>

definition kling_request :: http_request where
  "kling_request =
     \<lparr>req_authorization = Some ''Bearer sk-1'', req_query_key = JUndefined, req_param = [],
      req_body = JObj [(''prompt'', JStr ''a cat''), (''aspect_ratio'', JStr ''9:16''),
                       (''duration'', JStr ''5''), (''image'', JStr ''iVBOR'')],
      req_files = []\<rparr>"

definition kling_table :: "(string \<times> fetch_result) list" where
  "kling_table =
     [(''https://api.kie.ai/api/v1/files/upload'',
         answer 200 (JObj [(''data'', JObj [(''url'', JStr ''https://files.example/in.png'')])])),
      (''https://api.kie.ai/api/v1/jobs/createTask'',
         answer 200 (JObj [(''data'', JObj [(''taskId'', JStr ''job1'')])]))]"

text \<open>\<open>appended env L L'\<close>: the ledger \<open>L'\<close> is \<open>L\<close>, or \<open>L\<close> after one \<^verbatim>\<open>pushUsageLog\<close>.\<close>

definition appended :: "env \<Rightarrow> ledger \<Rightarrow> ledger \<Rightarrow> bool" where
  "appended env L L' = (L' = L \<or> (\<exists>apiKey log. L' = pushUsageLog (sha256Short env) L apiKey log))"

section \<open>Properties\<close>

subsection \<open>Reading values\<close>

lemma stateRaw_field:
  "kie_stateRaw json = JUndefined \<or> kie_stateRaw json = JNull \<or>
   kie_stateRaw json \<in> (\<lambda>k. js_prop (kie_data json) k) ` {''state'', ''status'', ''task_status'', ''taskStatus''}"
  unfolding kie_stateRaw_def Let_def js_nc_def nullish_def by auto

subsection \<open>Trimming\<close>

lemma strip_Nil [simp]: "strip ws [] = []"
proof -
  have "find (\<lambda>w. w \<noteq> [] \<and> startsWith [] w) ws = None"
    by (induction ws) (auto simp: neq_Nil_conv)
  then show ?thesis by (subst strip.simps) simp
qed

lemma trim_Nil [simp]: "trim [] = []"
  by (simp add: trim_def trimStart_def trimEnd_def)

lemma strip_other:
  assumes "\<forall>w \<in> set ws. w \<noteq> [] \<longrightarrow> hd w \<noteq> c"
  shows "strip ws (c # cs) = c # cs"
proof -
  have "find (\<lambda>w. w \<noteq> [] \<and> startsWith (c # cs) w) ws = None"
    using assms by (induction ws) (auto simp: neq_Nil_conv)
  then show ?thesis by (subst strip.simps) simp
qed

text \<open>No white space character begins or ends with a byte from 33 to 126.\<close>

lemma white_ends:
  assumes "w \<in> set white_space"
  shows "w \<noteq> []"
    and "\<not> (33 \<le> (of_char (hd w) :: nat) \<and> (of_char (hd w) :: nat) < 127)"
    and "\<not> (33 \<le> (of_char (last w) :: nat) \<and> (of_char (last w) :: nat) < 127)"
  using assms by (auto simp: white_space_def)

lemma trimStart_plain:
  assumes "33 \<le> (of_char c :: nat)" "(of_char c :: nat) < 127"
  shows "trimStart (c # cs) = c # cs"
  unfolding trimStart_def
proof (rule strip_other, intro ballI impI)
  fix w assume "w \<in> set white_space" "w \<noteq> []"
  with white_ends(2)[of w] assms show "hd w \<noteq> c" by auto
qed

lemma trimEnd_plain:
  assumes "33 \<le> (of_char c :: nat)" "(of_char c :: nat) < 127"
  shows "trimEnd (cs @ [c]) = cs @ [c]"
proof -
  have "strip (map rev white_space) (c # rev cs) = c # rev cs"
  proof (rule strip_other, intro ballI impI)
    fix w assume "w \<in> set (map rev white_space)" "w \<noteq> []"
    then obtain v where v: "v \<in> set white_space" "w = rev v" by auto
    with white_ends(1,3)[of v] have "\<not> (33 \<le> (of_char (hd w) :: nat) \<and> (of_char (hd w) :: nat) < 127)"
      by (simp add: hd_rev)
    with assms show "hd w \<noteq> c" by auto
  qed
  then show ?thesis by (simp add: trimEnd_def)
qed

text \<open>A string that begins and ends with a visible ASCII character is its own trimming.\<close>

lemma trim_plain:
  assumes "s \<noteq> []"
    and "33 \<le> (of_char (hd s) :: nat)" "(of_char (hd s) :: nat) < 127"
    and "33 \<le> (of_char (last s) :: nat)" "(of_char (last s) :: nat) < 127"
  shows "trim s = s"
proof -
  from assms(1) obtain c cs where s: "s = c # cs" by (cases s) auto
  from assms(1) obtain ds d where s2: "s = ds @ [d]" by (cases s rule: rev_cases) auto
  from s assms(2,3) have "trimStart s = s" by (simp add: trimStart_plain)
  moreover from s2 assms(4,5) have "trimEnd s = s" by (simp add: trimEnd_plain)
  ultimately show ?thesis by (simp add: trim_def)
qed

lemma trim_demo:
  "trim ''a cat'' = ''a cat''"
  "trim ''iVBOR'' = ''iVBOR''"
  "trim ''9:16'' = ''9:16''"
  by (rule trim_plain; simp)+

lemma bearer_demo:
  assumes "req_authorization req = Some ''Bearer sk-1''"
  shows "getBearerToken req = ''sk-1''"
proof -
  have a: "trimStart '' sk-1'' = ''sk-1''" and b: "trimEnd ''sk-1'' = ''sk-1''" by code_simp+
  have c: "\<not> has_line_end ''sk-1''" by code_simp
  have d: "toLowerCase ''Bearer'' = ''bearer''"
    by (simp add: toLowerCase_def lower_char_def char_of_eq_iff)
  from assms show ?thesis by (simp add: getBearerToken_def a b c d)
qed

lemma trim_nbsp: "trim (map char_of [0xC2, 0xA0 :: nat]) = []"
  by code_simp

subsection \<open>Status normalisation\<close>

text \<open>
  C1 (as amended). Whenever the text state of the record converts to a string \<open>s\<close>: a
  success flag of 1 gives \<^verbatim>\<open>completed\<close> whatever the text says; a success flag of 2 or 3
  gives \<^verbatim>\<open>failed\<close> unless the text, in lower case, is one of the four success words, which
  the code tests first and which then gives \<^verbatim>\<open>completed\<close>.
\<close>

theorem normalize_sentinel_precedence:
  assumes "js_String (js_or (kie_stateRaw json) (JStr [])) = Inr s"
  shows "(kie_successFlag json = JNum 1 \<longrightarrow> normalizeKieStatusToSimple json = Inr ''completed'')
       \<and> (kie_successFlag json = JNum 2 \<or> kie_successFlag json = JNum 3 \<longrightarrow>
            normalizeKieStatusToSimple json =
              Inr (if toLowerCase s \<in> {''success'', ''succeed'', ''completed'', ''done''}
                   then ''completed'' else ''failed''))"
  using assms by (simp add: normalizeKieStatusToSimple_def Let_def)

text \<open>
  The claim as it was stated fails: the record \<^verbatim>\<open>{data: {successFlag: 2, state: "success"}}\<close>
  carries the failure flag 2 and is normalised to \<^verbatim>\<open>completed\<close>.
\<close>

theorem normalize_sentinel_counterexample:
  "kie_successFlag (JObj [(''data'', JObj [(''successFlag'', JNum 2), (''state'', JStr ''success'')])]) = JNum 2
   \<and> normalizeKieStatusToSimple (JObj [(''data'', JObj [(''successFlag'', JNum 2), (''state'', JStr ''success'')])])
       = Inr ''completed''
   \<and> normalizeKieStatusToSimple (JObj [(''data'', JObj [(''successFlag'', JNum 2), (''state'', JStr ''success'')])])
       \<noteq> Inr ''failed''"
  by (simp add: normalizeKieStatusToSimple_def kie_successFlag_def kie_stateRaw_def kie_data_def
      js_nc_def nullish_def js_or_def toLowerCase_def lower_char_def)

theorem normalize_sentinel_precedence_witness:
  "normalizeKieStatusToSimple (JObj [(''successFlag'', JNum 1), (''state'', JStr ''failed'')]) = Inr ''completed''
   \<and> normalizeKieStatusToSimple (JObj [(''data'', JObj [(''successFlag'', JNum 3), (''status'', JStr ''Running'')])])
       = Inr ''failed''
   \<and> normalizeKieStatusToSimple (JObj [(''data'', JObj [(''successFlag'', JNum 2), (''status'', JStr ''DONE'')])])
       = Inr ''completed''"
proof -
  let ?a = "JObj [(''successFlag'', JNum 1), (''state'', JStr ''failed'')]"
  let ?b = "JObj [(''data'', JObj [(''successFlag'', JNum 3), (''status'', JStr ''Running'')])]"
  let ?c = "JObj [(''data'', JObj [(''successFlag'', JNum 2), (''status'', JStr ''DONE'')])]"
  have sa: "js_String (js_or (kie_stateRaw ?a) (JStr [])) = Inr ''failed''"
    by (simp add: kie_stateRaw_def kie_data_def js_nc_def nullish_def js_or_def)
  have sb: "js_String (js_or (kie_stateRaw ?b) (JStr [])) = Inr ''Running''"
    by (simp add: kie_stateRaw_def kie_data_def js_nc_def nullish_def js_or_def)
  have sc: "js_String (js_or (kie_stateRaw ?c) (JStr [])) = Inr ''DONE''"
    by (simp add: kie_stateRaw_def kie_data_def js_nc_def nullish_def js_or_def)
  have fa: "kie_successFlag ?a = JNum 1" and fb: "kie_successFlag ?b = JNum 3"
    and fc: "kie_successFlag ?c = JNum 2"
    by (simp_all add: kie_successFlag_def kie_data_def js_nc_def nullish_def)
  show ?thesis
    using normalize_sentinel_precedence[OF sa] normalize_sentinel_precedence[OF sb]
      normalize_sentinel_precedence[OF sc] fa fb fc
    by (simp add: toLowerCase_def lower_char_def char_of_eq_iff)
qed

text \<open>
  C2 (as amended). A record whose success flag is none of 1, 2, 3 and none of whose four
  state fields (\<^verbatim>\<open>state\<close>, \<^verbatim>\<open>status\<close>, \<^verbatim>\<open>task_status\<close>, \<^verbatim>\<open>taskStatus\<close>) reads, in lower
  case, as one of the seven known words is never normalised to \<^verbatim>\<open>completed\<close> or
  \<^verbatim>\<open>failed\<close>. It is normalised to \<^verbatim>\<open>processing\<close> whenever its state field converts to a
  string (every string, number, boolean, \<^verbatim>\<open>null\<close> or missing field does); when the
  conversion throws, the normaliser throws the same error and returns no status.
\<close>

theorem normalize_unrecognized_pending:
  assumes flag: "kie_successFlag json \<notin> {JNum 1, JNum 2, JNum 3}"
    and toks: "\<forall>k \<in> {''state'', ''status'', ''task_status'', ''taskStatus''}.
                 \<not> token_value (js_prop (kie_data json) k)"
  shows "normalizeKieStatusToSimple json \<noteq> Inr ''completed''
       \<and> normalizeKieStatusToSimple json \<noteq> Inr ''failed''
       \<and> (\<forall>s. js_String (kie_stateRaw json) = Inr s \<longrightarrow>
             normalizeKieStatusToSimple json = Inr ''processing'')
       \<and> (\<forall>e. js_String (kie_stateRaw json) = Inl e \<longrightarrow>
             normalizeKieStatusToSimple json = Inl e)"
proof -
  let ?raw = "js_or (kie_stateRaw json) (JStr [])"
  have thrown: "normalizeKieStatusToSimple json = Inl e" if e: "js_String (kie_stateRaw json) = Inl e" for e
  proof -
    from e have "truthy (kie_stateRaw json)" by (cases "kie_stateRaw json") auto
    then have "?raw = kie_stateRaw json" by (simp add: js_or_def)
    with e show ?thesis by (simp add: normalizeKieStatusToSimple_def Let_def)
  qed
  have nt: "\<not> token_value ?raw"
  proof (cases "truthy (kie_stateRaw json)")
    case False
    then have "?raw = JStr []" by (simp add: js_or_def)
    then show ?thesis by (simp add: token_value_def status_tokens_def toLowerCase_def)
  next
    case True
    then have r: "?raw = kie_stateRaw json" by (simp add: js_or_def)
    from True have "kie_stateRaw json \<noteq> JUndefined" "kie_stateRaw json \<noteq> JNull" by auto
    with stateRaw_field[of json] toks show ?thesis unfolding r by auto
  qed
  have ok: "js_String (kie_stateRaw json) = Inr s \<Longrightarrow> \<exists>s'. js_String ?raw = Inr s'" for s
    by (simp add: js_or_def)
  show ?thesis
  proof (cases "js_String ?raw")
    case (Inl e)
    then have "normalizeKieStatusToSimple json = Inl e"
      by (simp add: normalizeKieStatusToSimple_def Let_def)
    moreover have "\<forall>s. js_String (kie_stateRaw json) \<noteq> Inr s" using ok Inl by auto
    ultimately show ?thesis using thrown by auto
  next
    case (Inr s)
    with nt have "toLowerCase s \<notin> set status_tokens" by (simp add: token_value_def)
    then have "normalizeKieStatusToSimple json = Inr ''processing''"
      using flag Inr by (simp add: normalizeKieStatusToSimple_def Let_def status_tokens_def)
    then show ?thesis using thrown by auto
  qed
qed

text \<open>
  The claim as it was stated fails: the record \<^verbatim>\<open>{data: {state: {toString: 1}}}\<close> has no
  success flag and no known word in any state field, and the normaliser does not return
  \<^verbatim>\<open>processing\<close> for it: \<^verbatim>\<open>String(stateRaw)\<close> throws a \<^verbatim>\<open>TypeError\<close>.
\<close>

theorem normalize_unrecognized_counterexample:
  "kie_successFlag (JObj [(''data'', JObj [(''state'', JObj [(''toString'', JNum 1)])])]) = JUndefined
   \<and> \<not> token_value (js_prop (kie_data (JObj [(''data'', JObj [(''state'', JObj [(''toString'', JNum 1)])])])) ''state'')
   \<and> \<not> token_value (js_prop (kie_data (JObj [(''data'', JObj [(''state'', JObj [(''toString'', JNum 1)])])])) ''status'')
   \<and> \<not> token_value (js_prop (kie_data (JObj [(''data'', JObj [(''state'', JObj [(''toString'', JNum 1)])])])) ''task_status'')
   \<and> \<not> token_value (js_prop (kie_data (JObj [(''data'', JObj [(''state'', JObj [(''toString'', JNum 1)])])])) ''taskStatus'')
   \<and> normalizeKieStatusToSimple (JObj [(''data'', JObj [(''state'', JObj [(''toString'', JNum 1)])])])
       = Inl (TypeError ''Cannot convert object to primitive value'')
   \<and> normalizeKieStatusToSimple (JObj [(''data'', JObj [(''state'', JObj [(''toString'', JNum 1)])])])
       \<noteq> Inr ''processing''"
  by (simp add: normalizeKieStatusToSimple_def kie_successFlag_def kie_stateRaw_def kie_data_def
      token_value_def status_tokens_def cannot_convert_def js_nc_def nullish_def js_or_def
      toLowerCase_def lower_char_def)

theorem normalize_unrecognized_pending_witness:
  "normalizeKieStatusToSimple (JObj [(''data'', JObj [(''successFlag'', JNum 0), (''state'', JStr ''Queued'')])])
     = Inr ''processing''"
proof -
  let ?a = "JObj [(''data'', JObj [(''successFlag'', JNum 0), (''state'', JStr ''Queued'')])]"
  have f: "kie_successFlag ?a \<notin> {JNum 1, JNum 2, JNum 3}"
    by (simp add: kie_successFlag_def kie_data_def js_nc_def nullish_def)
  have t: "\<forall>k \<in> {''state'', ''status'', ''task_status'', ''taskStatus''}.
             \<not> token_value (js_prop (kie_data ?a) k)"
    by (simp add: kie_data_def js_nc_def nullish_def token_value_def status_tokens_def
        toLowerCase_def lower_char_def)
  have s: "js_String (kie_stateRaw ?a) = Inr ''Queued''"
    by (simp add: kie_stateRaw_def kie_data_def js_nc_def nullish_def)
  from normalize_unrecognized_pending[OF f t] s show ?thesis by blast
qed

subsection \<open>MIME sniffing\<close>

lemma four_bytes:
  assumes "4 \<le> length b"
  obtains x0 x1 x2 x3 r where "b = x0 # x1 # x2 # x3 # r"
proof -
  from assms obtain x0 b1 where "b = x0 # b1" "3 \<le> length b1" by (cases b) auto
  moreover then obtain x1 b2 where "b1 = x1 # b2" "2 \<le> length b2" by (cases b1) auto
  moreover then obtain x2 b3 where "b2 = x2 # b3" "1 \<le> length b3" by (cases b2) auto
  moreover then obtain x3 r where "b3 = x3 # r" by (cases b3) auto
  ultimately show ?thesis using that by blast
qed

text \<open>
  C5 (as amended). Of a buffer of at least four bytes: the PNG signature gives
  \<^verbatim>\<open>image/png\<close>, the JPEG marker FF D8 FF \<^verbatim>\<open>image/jpeg\<close>, the GIF signature 47 49 46
  \<^verbatim>\<open>image/gif\<close>, and a RIFF header with the WEBP tag at offset 8 \<^verbatim>\<open>image/webp\<close>. A buffer
  shorter than four bytes, and a buffer that starts with none of FF D8 FF, 47 49 46 and
  RIFF, gives \<^verbatim>\<open>image/png\<close>.
\<close>

theorem detectImageMime_signatures:
  "(take 4 b = [0x89, 0x50, 0x4E, 0x47] \<longrightarrow> detectImageMime b = ''image/png'')
 \<and> (4 \<le> length b \<and> take 3 b = [0xFF, 0xD8, 0xFF] \<longrightarrow> detectImageMime b = ''image/jpeg'')
 \<and> (4 \<le> length b \<and> take 3 b = [0x47, 0x49, 0x46] \<longrightarrow> detectImageMime b = ''image/gif'')
 \<and> (take 4 b = [0x52, 0x49, 0x46, 0x46] \<and> take 4 (drop 8 b) = [0x57, 0x45, 0x42, 0x50]
        \<longrightarrow> detectImageMime b = ''image/webp'')
 \<and> (length b < 4 \<or> (take 3 b \<noteq> [0xFF, 0xD8, 0xFF] \<and> take 3 b \<noteq> [0x47, 0x49, 0x46]
        \<and> take 4 b \<noteq> [0x52, 0x49, 0x46, 0x46]) \<longrightarrow> detectImageMime b = ''image/png'')"
proof (cases "4 \<le> length b")
  case False
  then have "length b < 4" by simp
  moreover then have "length (take 4 b) < 4" by simp
  then have "take 4 b \<noteq> [0x89, 0x50, 0x4E, 0x47]" "take 4 b \<noteq> [0x52, 0x49, 0x46, 0x46]"
    by auto
  ultimately show ?thesis using False by (simp add: detectImageMime_def)
next
  case True
  then obtain x0 x1 x2 x3 r where b: "b = x0 # x1 # x2 # x3 # r" by (rule four_bytes)
  show ?thesis unfolding b by (simp add: detectImageMime_def)
qed

text \<open>
  The claim as it was stated fails: the three bytes FF D8 FF begin with the JPEG marker
  and are sniffed as \<^verbatim>\<open>image/png\<close>.
\<close>

theorem detectImageMime_counterexample:
  "detectImageMime [0xFF, 0xD8, 0xFF] = ''image/png'' \<and> detectImageMime [0xFF, 0xD8, 0xFF] \<noteq> ''image/jpeg''"
  by (simp add: detectImageMime_def)

theorem detectImageMime_signatures_witness:
  "detectImageMime [0x89, 0x50, 0x4E, 0x47, 0x0D, 0x0A] = ''image/png''
 \<and> detectImageMime [0xFF, 0xD8, 0xFF, 0xE0] = ''image/jpeg''
 \<and> detectImageMime [0x47, 0x49, 0x46, 0x38] = ''image/gif''
 \<and> detectImageMime [0x52, 0x49, 0x46, 0x46, 0x24, 0, 0, 0, 0x57, 0x45, 0x42, 0x50] = ''image/webp''
 \<and> detectImageMime [0x25, 0x50, 0x44, 0x46] = ''image/png''"
  using detectImageMime_signatures[of "[0x89, 0x50, 0x4E, 0x47, 0x0D, 0x0A]"]
    detectImageMime_signatures[of "[0xFF, 0xD8, 0xFF, 0xE0]"]
    detectImageMime_signatures[of "[0x47, 0x49, 0x46, 0x38]"]
    detectImageMime_signatures[of "[0x52, 0x49, 0x46, 0x46, 0x24, 0, 0, 0, 0x57, 0x45, 0x42, 0x50]"]
    detectImageMime_signatures[of "[0x25, 0x50, 0x44, 0x46]"]
  by simp

text \<open>
  C10. Every buffer shorter than four bytes is sniffed as \<^verbatim>\<open>image/png\<close>, whatever it
  holds: the empty buffer, and the bare three-byte JPEG marker too.
\<close>

theorem detectImageMime_short:
  "length b < 4 \<Longrightarrow> detectImageMime b = ''image/png''"
  by (simp add: detectImageMime_def)

theorem detectImageMime_short_witness:
  "detectImageMime [] = ''image/png'' \<and> detectImageMime [0x47, 0x49, 0x46] = ''image/png''
   \<and> detectImageMime [0xFF, 0xD8, 0xFF] = ''image/png''"
  using detectImageMime_short[of "[]"] detectImageMime_short[of "[0x47, 0x49, 0x46]"]
    detectImageMime_short[of "[0xFF, 0xD8, 0xFF]"]
  by simp

subsection \<open>The usage ledger\<close>

lemma push_take: "pushUsageLog sha L apiKey e =
   (if apiKey = [] then L
    else L(sha apiKey \<mapsto> take 2000 (e # (case L (sha apiKey) of Some a \<Rightarrow> a | None \<Rightarrow> []))))"
  by (simp add: pushUsageLog_def Let_def)

lemma take_append_take: "take n (xs @ take n ys) = take n (xs @ ys)"
  by simp

lemma push_all_key:
  "apiKey \<noteq> [] \<Longrightarrow>
   push_all sha L apiKey es (sha apiKey) =
     (if es = [] then L (sha apiKey)
      else Some (take 2000 (rev es @ (case L (sha apiKey) of Some a \<Rightarrow> a | None \<Rightarrow> []))))"
proof (induction es arbitrary: L)
  case Nil
  then show ?case by simp
next
  case (Cons e es)
  let ?old = "case L (sha apiKey) of Some a \<Rightarrow> a | None \<Rightarrow> []"
  have "take 2000 (rev es @ take 2000 (e # ?old)) = take 2000 (rev es @ e # ?old)"
    by (rule take_append_take)
  with Cons show ?case by (simp add: push_take)
qed

subsection \<open>Candidate probing\<close>

lemma fetch_trace:
  "fetch env rq st = (fr, st1) \<Longrightarrow>
     fr = respond env (trace st) (clock st) rq
     \<and> trace st1 = trace st @ [\<lparr>ex_at = clock st, ex_request = rq, ex_result = fr\<rparr>]
     \<and> usageLogs st1 = usageLogs st
     \<and> clock st1 = clock st + latency env (trace st) (clock st) rq"
  by (auto simp: fetch_def Let_def)

lemma upload_loop_step:
  "upload_loop env apiKey form (u # rest) st =
     (case fetch env (upload_request apiKey u form) st of
        (fr, st1) \<Rightarrow> (case upload_hit fr of
                        Some s \<Rightarrow> (Inr s, st1)
                      | None \<Rightarrow> upload_loop env apiKey form rest st1))"
  by (simp add: fetchJson_def upload_hit_def split: prod.splits fetch_result.splits jsval.splits)

lemma image_loop_step:
  "image_loop env apiKey body ((gen, rec) # rest) st =
     (case fetch env (image_request apiKey gen body) st of
        (fr, st1) \<Rightarrow> (case image_hit fr of
                        Some t \<Rightarrow> (Inr (t, rec), st1)
                      | None \<Rightarrow> image_loop env apiKey body rest st1))"
  by (simp add: fetchJson_def image_hit_def Let_def split: prod.splits fetch_result.splits)

lemma probed_Nil: "probed hit [] [] None"
  by (simp add: probed_def)

lemma probed_hit: "hit (ex_result x) = Some v \<Longrightarrow> ex_request x = rq \<Longrightarrow> probed hit (rq # rqs) [x] (Some v)"
  by (simp add: probed_def)

lemma probed_miss:
  "hit (ex_result x) = None \<Longrightarrow> ex_request x = rq \<Longrightarrow> probed hit rqs new found
     \<Longrightarrow> probed hit (rq # rqs) (x # new) found"
  by (cases found) (auto simp: probed_def)

lemma upload_loop_probed:
  "upload_loop env apiKey form cands st = (res, st') \<Longrightarrow>
     \<exists>new. trace st' = trace st @ new \<and> usageLogs st' = usageLogs st
       \<and> probed upload_hit (map (\<lambda>u. upload_request apiKey u form) cands) new
            (case res of Inr s \<Rightarrow> Some s | Inl e \<Rightarrow> None)"
proof (induction cands arbitrary: st)
  case Nil
  then show ?case by (auto simp: probed_Nil)
next
  case (Cons u rest)
  obtain fr st1 where f: "fetch env (upload_request apiKey u form) st = (fr, st1)"
    by (cases "fetch env (upload_request apiKey u form) st")
  let ?x = "\<lparr>ex_at = clock st, ex_request = upload_request apiKey u form, ex_result = fr\<rparr>"
  from fetch_trace[OF f] have t1: "trace st1 = trace st @ [?x]" "usageLogs st1 = usageLogs st"
    by simp_all
  show ?case
  proof (cases "upload_hit fr")
    case (Some s)
    with Cons.prems f have "res = Inr s" "st' = st1" by (simp_all add: upload_loop_step del: upload_loop.simps)
    with t1 Some show ?thesis
      by (intro exI[of _ "[?x]"]) (simp add: probed_hit)
  next
    case None
    with Cons.prems f have "upload_loop env apiKey form rest st1 = (res, st')"
      by (simp add: upload_loop_step del: upload_loop.simps)
    from Cons.IH[OF this] obtain new where n: "trace st' = trace st1 @ new"
      "usageLogs st' = usageLogs st1"
      "probed upload_hit (map (\<lambda>u. upload_request apiKey u form) rest) new
            (case res of Inr s \<Rightarrow> Some s | Inl e \<Rightarrow> None)" by blast
    with t1 None show ?thesis
      by (intro exI[of _ "?x # new"]) (simp add: probed_miss)
  qed
qed

lemma image_loop_probed:
  "image_loop env apiKey body cands st = (res, st') \<Longrightarrow>
     \<exists>new. trace st' = trace st @ new \<and> usageLogs st' = usageLogs st
       \<and> probed image_hit (map (\<lambda>c. image_request apiKey (fst c) body) cands) new
            (case res of Inr tr \<Rightarrow> Some (fst tr) | Inl e \<Rightarrow> None)
       \<and> (\<forall>tr. res = Inr tr \<longrightarrow> snd tr = snd (cands ! (length new - 1)))"
proof (induction cands arbitrary: st)
  case Nil
  then show ?case by (auto simp: probed_Nil)
next
  case (Cons c rest)
  obtain gen rec where c: "c = (gen, rec)" by (cases c)
  obtain fr st1 where f: "fetch env (image_request apiKey gen body) st = (fr, st1)"
    by (cases "fetch env (image_request apiKey gen body) st")
  let ?x = "\<lparr>ex_at = clock st, ex_request = image_request apiKey gen body, ex_result = fr\<rparr>"
  from fetch_trace[OF f] have t1: "trace st1 = trace st @ [?x]" "usageLogs st1 = usageLogs st"
    by simp_all
  show ?case
  proof (cases "image_hit fr")
    case (Some t)
    with Cons.prems f c have "res = Inr (t, rec)" "st' = st1" by (simp_all add: image_loop_step del: image_loop.simps)
    with t1 Some c show ?thesis
      by (intro exI[of _ "[?x]"]) (simp add: probed_hit)
  next
    case None
    with Cons.prems f c have "image_loop env apiKey body rest st1 = (res, st')"
      by (simp add: image_loop_step del: image_loop.simps)
    from Cons.IH[OF this] obtain new where n: "trace st' = trace st1 @ new"
      "usageLogs st' = usageLogs st1"
      "probed image_hit (map (\<lambda>c. image_request apiKey (fst c) body) rest) new
            (case res of Inr tr \<Rightarrow> Some (fst tr) | Inl e \<Rightarrow> None)"
      "\<forall>tr. res = Inr tr \<longrightarrow> snd tr = snd (rest ! (length new - 1))" by blast
    have ne: "res = Inr tr \<Longrightarrow> new \<noteq> []" for tr
      using n(3) by (auto simp: probed_def)
    have "\<forall>tr. res = Inr tr \<longrightarrow> snd tr = snd ((c # rest) ! (length (?x # new) - 1))"
      using n(4) ne by (cases new) auto
    with n t1 None c show ?thesis
      by (intro exI[of _ "?x # new"]) (simp add: probed_miss)
  qed
qed


text \<open>
  C3 (as amended). Given a key, a buffer that is not empty and a file name and type it
  can build (a name of the caller, or else an extension for the type; a type that converts
  to a string), \<^verbatim>\<open>kieUploadBuffer\<close> calls its three candidates in order and stops at the
  first whose answer has an ok status \<^emph>\<open>and\<close> a URL string under one of the known names:
  that URL is what it returns. \<^verbatim>\<open>kieImageGenerate\<close> does the same over its four
  candidates, for an ok answer with a task id. A candidate that throws, that answers with
  another status, or that answers ok without the field is passed over; no candidate after
  the one that was taken is called, and when none is taken all were called and the helper
  throws. Without a key or with an empty buffer the upload is refused before any call.
\<close>

theorem candidate_probing:
  "(apiKey \<noteq> [] \<and> buffer \<noteq> []
      \<and> js_String (js_or mimeType (JStr (detectImageMime buffer))) = Inr t
      \<and> (filename \<noteq> [] \<or> extFromMime (js_or mimeType (JStr (detectImageMime buffer))) = Inr ext)
      \<and> kieUploadBuffer env apiKey buffer filename mimeType st = (res, st') \<longrightarrow>
      (\<exists>new. trace st' = trace st @ new \<and> usageLogs st' = usageLogs st
         \<and> probed upload_hit
              (map (\<lambda>u. upload_request apiKey u
                          (FormFile (if filename \<noteq> [] then filename else ''upload.'' @ ext)
                             (js_or mimeType (JStr (detectImageMime buffer))) buffer))
                   (upload_candidates env))
              new (case res of Inr s \<Rightarrow> Some s | Inl e \<Rightarrow> None)))
 \<and> (apiKey = [] \<longrightarrow>
       kieUploadBuffer env apiKey buffer filename mimeType st = (Inl (Error ''Missing APIKey''), st))
 \<and> (apiKey \<noteq> [] \<and> buffer = [] \<longrightarrow>
       kieUploadBuffer env apiKey buffer filename mimeType st = (Inl (Error ''Empty upload''), st))
 \<and> (kieImageGenerate env apiKey body st = (res2, st2) \<longrightarrow>
      (\<exists>new. trace st2 = trace st @ new \<and> usageLogs st2 = usageLogs st
         \<and> probed image_hit
              (map (\<lambda>c. image_request apiKey (fst c) body) (image_candidates env))
              new (case res2 of Inr tr \<Rightarrow> Some (fst tr) | Inl e \<Rightarrow> None)
         \<and> (\<forall>tr. res2 = Inr tr \<longrightarrow> snd tr = snd (image_candidates env ! (length new - 1)))))"
proof -
  let ?mime = "js_or mimeType (JStr (detectImageMime buffer))"
  let ?name = "if filename \<noteq> [] then filename else ''upload.'' @ ext"
  have up: "\<exists>new. trace st' = trace st @ new \<and> usageLogs st' = usageLogs st
         \<and> probed upload_hit
              (map (\<lambda>u. upload_request apiKey u (FormFile ?name ?mime buffer)) (upload_candidates env))
              new (case res of Inr s \<Rightarrow> Some s | Inl e \<Rightarrow> None)"
    if k: "apiKey \<noteq> []" and b: "buffer \<noteq> []" and t: "js_String ?mime = Inr t"
      and n: "filename \<noteq> [] \<or> extFromMime ?mime = Inr ext"
      and a: "kieUploadBuffer env apiKey buffer filename mimeType st = (res, st')"
  proof -
    from n have "(if filename \<noteq> [] then Inr filename
                  else (case extFromMime ?mime of Inl e \<Rightarrow> Inl e | Inr ext \<Rightarrow> Inr (''upload.'' @ ext)))
                 = (Inr ?name :: error + string)"
      by auto
    with a k b t have
      "upload_loop env apiKey (FormFile ?name ?mime buffer) (upload_candidates env) st = (res, st')"
      by (simp add: kieUploadBuffer_def Let_def)
    from upload_loop_probed[OF this] show ?thesis by blast
  qed
  have r1: "kieUploadBuffer env apiKey buffer filename mimeType st = (Inl (Error ''Missing APIKey''), st)"
    if "apiKey = []"
    using that by (simp add: kieUploadBuffer_def)
  have r2: "kieUploadBuffer env apiKey buffer filename mimeType st = (Inl (Error ''Empty upload''), st)"
    if "apiKey \<noteq> []" "buffer = []"
    using that by (simp add: kieUploadBuffer_def)
  have im: "\<exists>new. trace st2 = trace st @ new \<and> usageLogs st2 = usageLogs st
         \<and> probed image_hit
              (map (\<lambda>c. image_request apiKey (fst c) body) (image_candidates env))
              new (case res2 of Inr tr \<Rightarrow> Some (fst tr) | Inl e \<Rightarrow> None)
         \<and> (\<forall>tr. res2 = Inr tr \<longrightarrow> snd tr = snd (image_candidates env ! (length new - 1)))"
    if "kieImageGenerate env apiKey body st = (res2, st2)"
  proof -
    from that have "image_loop env apiKey body (image_candidates env) st = (res2, st2)"
      by (simp add: kieImageGenerate_def)
    from image_loop_probed[OF this] show ?thesis by blast
  qed
  from up r1 r2 im show ?thesis by blast
qed

text \<open>What the examples unfold.\<close>

lemmas demo_defs = demo_env_def answer_def state0_def fetchJson_def fetch_def resp_ok_def
  js_or_def js_nc_def nullish_def Let_def

text \<open>
  The claim as it was stated fails: here the first upload candidate answers 200 (with no
  URL in its body), and the second candidate is called all the same.
\<close>

theorem candidate_probing_counterexample:
  "fst (kieUploadBuffer (demo_env upload_table_a) ''key'' [1] ''a.png'' (JStr ''image/png'') state0)
     = Inr ''https://files.example/a.png''
   \<and> map ex_result (trace (snd (kieUploadBuffer (demo_env upload_table_a) ''key'' [1] ''a.png''
                                   (JStr ''image/png'') state0)))
     = [Responded \<lparr>rs_status = 200, rs_headers = [], rs_json = JObj [], rs_bytes = None\<rparr>,
        Responded \<lparr>rs_status = 200, rs_headers = [],
                   rs_json = JObj [(''data'', JObj [(''url'', JStr ''https://files.example/a.png'')])],
                   rs_bytes = None\<rparr>]
   \<and> resp_ok \<lparr>rs_status = 200, rs_headers = [], rs_json = JObj [], rs_bytes = None\<rparr>"
  by (simp add: kieUploadBuffer_def upload_candidates_def upload_table_a_def upload_request_def
      upload_file_url_def demo_defs)

theorem candidate_probing_witness:
  "kieUploadBuffer (demo_env upload_table_b) ''key'' [1] ''b.png'' (JStr ''image/png'') state0
     = (Inr ''https://files.example/b.png'',
        \<lparr>clock = 3,
         trace = map (\<lambda>(t, u, r). \<lparr>ex_at = t,
                        ex_request = upload_request ''key'' u (FormFile ''b.png'' (JStr ''image/png'') [1]),
                        ex_result = r\<rparr>)
                   [(0, ''https://api.kie.ai/api/v1/files/upload'', Rejected (TypeError ''fetch failed'')),
                    (1, ''https://api.kie.ai/api/v1/file/upload'', answer 500 (JObj [])),
                    (2, ''https://api.kie.ai/api/v1/upload'',
                       answer 200 (JObj [(''fileUrl'', JStr ''https://files.example/b.png'')]))],
         usageLogs = Map.empty\<rparr>)
   \<and> kieUploadBuffer (demo_env upload_table_b) [] [1] ''b.png'' (JStr ''image/png'') state0
       = (Inl (Error ''Missing APIKey''), state0)
   \<and> kieUploadBuffer (demo_env upload_table_b) ''key'' [] ''b.png'' (JStr ''image/png'') state0
       = (Inl (Error ''Empty upload''), state0)
   \<and> fst (kieImageGenerate (demo_env image_table) ''key'' (JObj []) state0)
       = Inr (JStr ''task1'', ''https://api.kie.ai/api/v1/gpt-image/record-info'')
   \<and> length (trace (snd (kieImageGenerate (demo_env image_table) ''key'' (JObj []) state0))) = 1"
proof -
  let ?u = "kieUploadBuffer (demo_env upload_table_b) ''key'' [1] ''b.png'' (JStr ''image/png'') state0"
  let ?i = "kieImageGenerate (demo_env image_table) ''key'' (JObj []) state0"
  have u: "?u = (fst ?u, snd ?u)" and i: "?i = (fst ?i, snd ?i)" by simp_all
  have k: "''key'' \<noteq> []" "[1 :: byte] \<noteq> []" by simp_all
  have t: "js_String (js_or (JStr ''image/png'') (JStr (detectImageMime [1]))) = Inr ''image/png''"
    by (simp add: js_or_def)
  have n: "''b.png'' \<noteq> [] \<or> extFromMime (js_or (JStr ''image/png'') (JStr (detectImageMime [1]))) = Inr ''png''"
    by simp
  note candidate_probing[where env = "demo_env upload_table_b" and apiKey = "''key''" and buffer = "[1]"
      and filename = "''b.png''" and mimeType = "JStr ''image/png''" and st = state0 and t = "''image/png''"
      and ext = "''png''" and res = "fst ?u" and st' = "snd ?u" and body = "JObj []"
      and ?res2.0 = "fst (kieImageGenerate (demo_env upload_table_b) ''key'' (JObj []) state0)"
      and ?st2.0 = "snd (kieImageGenerate (demo_env upload_table_b) ''key'' (JObj []) state0)"]
    candidate_probing[where env = "demo_env upload_table_b" and apiKey = "[]" and buffer = "[1]"
      and filename = "''b.png''" and mimeType = "JStr ''image/png''" and st = state0]
    candidate_probing[where env = "demo_env upload_table_b" and apiKey = "''key''" and buffer = "[]"
      and filename = "''b.png''" and mimeType = "JStr ''image/png''" and st = state0]
    candidate_probing[where env = "demo_env image_table" and apiKey = "''key''" and st = state0
      and body = "JObj []" and ?res2.0 = "fst ?i" and ?st2.0 = "snd ?i"]
  with k t n show ?thesis
    by (simp add: kieUploadBuffer_def upload_candidates_def upload_table_b_def upload_request_def
        upload_file_url_def kieImageGenerate_def image_candidates_def image_table_def
        image_request_def response_taskId_def json_headers_def demo_defs)
qed

subsection \<open>The synchronous wait\<close>






subsection \<open>Requests without a credential\<close>

lemma no_header_no_token: "req_authorization req = None \<Longrightarrow> getBearerToken req = []"
  by (simp add: getBearerToken_def toLowerCase_def)

lemma blank_bearer_no_token: "req_authorization req = Some h \<Longrightarrow> trim (drop 6 h) = [] \<Longrightarrow> getBearerToken req = []"
  by (simp add: getBearerToken_def trim_def Let_def)

text \<open>
  C8. A request from which \<^verbatim>\<open>getBearerToken\<close> reads no token is answered with status 401
  by the video create and poll handlers, by both Kling create handlers and by the chat
  handler, and, when its \<^verbatim>\<open>key\<close> query parameter is missing or blank as well, by the
  Gemini handler; the state comes back as it was, so no call went upstream and the ledger
  is unchanged. No token is read when there is no \<^verbatim>\<open>authorization\<close> header, when the
  header does not begin with \<^verbatim>\<open>Bearer\<close> (in any case), and when nothing but white space
  follows \<^verbatim>\<open>Bearer\<close>.
\<close>

theorem missing_credential_rejected:
  "(getBearerToken req = [] \<longrightarrow>
      videos_create env req st
        = (Replied (json_reply 401 (JObj [(''error'', JStr ''Missing Authorization Bearer APIKey'')])), st)
      \<and> videos_poll env req st
        = (Replied (json_reply 401 (JObj [(''error'', JStr ''Missing Authorization Bearer APIKey'')])), st)
      \<and> kling_text2video env req st
        = (Replied (json_reply 401 (JObj [(''message'', JStr ''Missing Authorization Bearer APIKey'')])), st)
      \<and> kling_image2video env req st
        = (Replied (json_reply 401 (JObj [(''message'', JStr ''Missing Authorization Bearer APIKey'')])), st)
      \<and> chat_completions env req st
        = (Replied (json_reply 401 (JObj [(''error'', JStr ''Missing Authorization Bearer APIKey'')])), st))
 \<and> (getBearerToken req = [] \<and> js_String (js_or (req_query_key req) (JStr [])) = Inr q \<and> trim q = [] \<longrightarrow>
      generateContent env req st
        = Some (Replied (json_reply 401
                  (JObj [(''error'', JStr ''Missing APIKey (Authorization Bearer or ?key=...)'')])), st))
 \<and> (req_authorization req = None \<longrightarrow> getBearerToken req = [])
 \<and> (req_authorization req = Some h \<and> toLowerCase (take 6 h) \<noteq> ''bearer'' \<longrightarrow> getBearerToken req = [])
 \<and> (req_authorization req = Some h \<and> trim (drop 6 h) = [] \<longrightarrow> getBearerToken req = [])"
proof -
  have five: "videos_create env req st
        = (Replied (json_reply 401 (JObj [(''error'', JStr ''Missing Authorization Bearer APIKey'')])), st)
      \<and> videos_poll env req st
        = (Replied (json_reply 401 (JObj [(''error'', JStr ''Missing Authorization Bearer APIKey'')])), st)
      \<and> kling_text2video env req st
        = (Replied (json_reply 401 (JObj [(''message'', JStr ''Missing Authorization Bearer APIKey'')])), st)
      \<and> kling_image2video env req st
        = (Replied (json_reply 401 (JObj [(''message'', JStr ''Missing Authorization Bearer APIKey'')])), st)
      \<and> chat_completions env req st
        = (Replied (json_reply 401 (JObj [(''error'', JStr ''Missing Authorization Bearer APIKey'')])), st)"
    if "getBearerToken req = []"
    using that
    by (simp add: videos_create_def videos_poll_def kling_text2video_def kling_image2video_def
        chat_completions_def)
  have gem: "generateContent env req st
        = Some (Replied (json_reply 401
                  (JObj [(''error'', JStr ''Missing APIKey (Authorization Bearer or ?key=...)'')])), st)"
    if "getBearerToken req = []" "js_String (js_or (req_query_key req) (JStr [])) = Inr q" "trim q = []"
    using that by (simp add: generateContent_def getApiKeyFromReq_def)
  have other: "getBearerToken req = []" if "req_authorization req = Some h" "toLowerCase (take 6 h) \<noteq> ''bearer''"
    using that by (simp add: getBearerToken_def Let_def)
  from five gem other no_header_no_token blank_bearer_no_token show ?thesis by blast
qed

theorem missing_credential_rejected_witness:
  "rp_status (json_reply 401 (JObj [])) = 401
   \<and> videos_create (demo_env []) anonymous_request state0
       = (Replied (json_reply 401 (JObj [(''error'', JStr ''Missing Authorization Bearer APIKey'')])), state0)
   \<and> videos_poll (demo_env []) anonymous_request state0
       = (Replied (json_reply 401 (JObj [(''error'', JStr ''Missing Authorization Bearer APIKey'')])), state0)
   \<and> kling_text2video (demo_env []) anonymous_request state0
       = (Replied (json_reply 401 (JObj [(''message'', JStr ''Missing Authorization Bearer APIKey'')])), state0)
   \<and> kling_image2video (demo_env []) anonymous_request state0
       = (Replied (json_reply 401 (JObj [(''message'', JStr ''Missing Authorization Bearer APIKey'')])), state0)
   \<and> chat_completions (demo_env []) anonymous_request state0
       = (Replied (json_reply 401 (JObj [(''error'', JStr ''Missing Authorization Bearer APIKey'')])), state0)
   \<and> generateContent (demo_env []) anonymous_request state0
       = Some (Replied (json_reply 401
                 (JObj [(''error'', JStr ''Missing APIKey (Authorization Bearer or ?key=...)'')])), state0)
   \<and> videos_create (demo_env []) (request_with (Some ''Basic dXNlcjpwdw=='') JUndefined) state0
       = (Replied (json_reply 401 (JObj [(''error'', JStr ''Missing Authorization Bearer APIKey'')])), state0)
   \<and> chat_completions (demo_env []) (request_with (Some ''Bearer   '') JUndefined) state0
       = (Replied (json_reply 401 (JObj [(''error'', JStr ''Missing Authorization Bearer APIKey'')])), state0)
   \<and> generateContent (demo_env []) (request_with None (JStr (map char_of [0xC2, 0xA0 :: nat]))) state0
       = Some (Replied (json_reply 401
                 (JObj [(''error'', JStr ''Missing APIKey (Authorization Bearer or ?key=...)'')])), state0)"
proof -
  let ?basic = "request_with (Some ''Basic dXNlcjpwdw=='') JUndefined"
  let ?blank = "request_with (Some ''Bearer   '') JUndefined"
  let ?nbsp = "request_with None (JStr (map char_of [0xC2, 0xA0 :: nat]))"
  have a: "req_authorization anonymous_request = None"
    and qa: "js_String (js_or (req_query_key anonymous_request) (JStr [])) = Inr []"
    by (simp_all add: anonymous_request_def js_or_def)
  have b: "req_authorization ?basic = Some ''Basic dXNlcjpwdw==''"
    and nb: "toLowerCase (take 6 ''Basic dXNlcjpwdw=='') \<noteq> ''bearer''"
    by (simp_all add: request_with_def toLowerCase_def lower_char_def char_of_eq_iff)
  have c: "req_authorization ?blank = Some ''Bearer   ''" by (simp add: request_with_def)
  have tc: "trim (drop 6 ''Bearer   '') = []" by code_simp
  have d: "req_authorization ?nbsp = None"
    and qd: "js_String (js_or (req_query_key ?nbsp) (JStr [])) = Inr (map char_of [0xC2, 0xA0 :: nat])"
    by (simp_all add: request_with_def js_or_def)
  note A = missing_credential_rejected[where req = anonymous_request and env = "demo_env []"
      and st = state0 and q = "[]"]
  note B = missing_credential_rejected[where req = ?basic and env = "demo_env []"
      and st = state0 and h = "''Basic dXNlcjpwdw==''"]
  note C = missing_credential_rejected[where req = ?blank and env = "demo_env []"
      and st = state0 and h = "''Bearer   ''"]
  note D = missing_credential_rejected[where req = ?nbsp and env = "demo_env []"
      and st = state0 and q = "map char_of [0xC2, 0xA0 :: nat]"]
  have r: "rp_status (json_reply 401 (JObj [])) = 401" by (simp add: json_reply_def)
  from A a qa have "getBearerToken anonymous_request = []" by blast
  with A qa have A': "videos_create (demo_env []) anonymous_request state0
       = (Replied (json_reply 401 (JObj [(''error'', JStr ''Missing Authorization Bearer APIKey'')])), state0)
   \<and> videos_poll (demo_env []) anonymous_request state0
       = (Replied (json_reply 401 (JObj [(''error'', JStr ''Missing Authorization Bearer APIKey'')])), state0)
   \<and> kling_text2video (demo_env []) anonymous_request state0
       = (Replied (json_reply 401 (JObj [(''message'', JStr ''Missing Authorization Bearer APIKey'')])), state0)
   \<and> kling_image2video (demo_env []) anonymous_request state0
       = (Replied (json_reply 401 (JObj [(''message'', JStr ''Missing Authorization Bearer APIKey'')])), state0)
   \<and> chat_completions (demo_env []) anonymous_request state0
       = (Replied (json_reply 401 (JObj [(''error'', JStr ''Missing Authorization Bearer APIKey'')])), state0)
   \<and> generateContent (demo_env []) anonymous_request state0
       = Some (Replied (json_reply 401
                 (JObj [(''error'', JStr ''Missing APIKey (Authorization Bearer or ?key=...)'')])), state0)"
    using trim_Nil by blast
  from B b nb have "getBearerToken ?basic = []" by blast
  with B have B': "videos_create (demo_env []) ?basic state0
       = (Replied (json_reply 401 (JObj [(''error'', JStr ''Missing Authorization Bearer APIKey'')])), state0)"
    by blast
  from C c tc have "getBearerToken ?blank = []" by blast
  with C have C': "chat_completions (demo_env []) ?blank state0
       = (Replied (json_reply 401 (JObj [(''error'', JStr ''Missing Authorization Bearer APIKey'')])), state0)"
    by blast
  from D d have "getBearerToken ?nbsp = []" by blast
  with D qd trim_nbsp have D': "generateContent (demo_env []) ?nbsp state0
       = Some (Replied (json_reply 401
                 (JObj [(''error'', JStr ''Missing APIKey (Authorization Bearer or ?key=...)'')])), state0)"
    by blast
  from r A' B' C' D' show ?thesis by blast
qed

subsection \<open>The text-only Gemini answer\<close>

lemma polish_nonempty: "p \<noteq> [] \<Longrightarrow> simplePromptPolish p \<noteq> []"
  by (simp add: simplePromptPolish_def)

lemma polish_text: "js_or (js_or (JStr (simplePromptPolish p)) (JStr p)) (JStr []) = JStr (simplePromptPolish p)"
proof (cases "p = []")
  case True
  then show ?thesis by (simp add: js_or_def simplePromptPolish_def)
next
  case False
  then show ?thesis by (simp add: js_or_def polish_nonempty)
qed

text \<open>
  C4 (as amended). A Gemini request that carries a credential, has no inline image, has no
  \<^verbatim>\<open>generationConfig.responseModalities\<close> and names a model whose id does not contain
  \<^verbatim>\<open>image\<close> (in any case) is answered without any call upstream: one candidate, whose one
  part is the text \<^verbatim>\<open>simplePromptPolish\<close> makes of the joined prompt; one entry is added to
  the usage ledger.
\<close>

theorem generate_text_only:
  assumes key: "getApiKeyFromReq req = Inr apiKey" "apiKey \<noteq> []"
    and noimg: "snd (extractGeminiTextAndInlineImages (js_or (req_body req) (JObj []))) = []"
    and nomod: "js_prop (js_prop (js_or (req_body req) (JObj [])) ''generationConfig'') ''responseModalities''
                  = JUndefined"
    and model: "\<not> str_includes (toLowerCase (req_param req)) ''image''"
  shows "generateContent env req st =
           Some (Replied (candidates_reply
                   [JObj [(''text'',
                           JStr (simplePromptPolish
                                   (fst (extractGeminiTextAndInlineImages (js_or (req_body req) (JObj []))))))]]),
                 st\<lparr>usageLogs :=
                      pushUsageLog (sha256Short env) (usageLogs st) apiKey
                        \<lparr>log_created_at = nowUnix st,
                         log_model_name = ''local-prompt-polish:''
                            @ (if req_param req \<noteq> [] then req_param req else ''text''),
                         log_prompt = fst (extractGeminiTextAndInlineImages (js_or (req_body req) (JObj []))),
                         log_image_count = 0,
                         log_path = generate_path (req_param req),
                         log_kind = ''text''\<rparr>\<rparr>)"
  using assms
  by (simp add: generateContent_def generate_text_def as_array_def polish_text log_usage_def Let_def)

lemma demo_env_sel:
  "KIE_API_BASE (demo_env tab) = ''https://api.kie.ai''"
  "IMAGE_SYNC_MAX_WAIT_MS (demo_env tab) = 5"
  "IMAGE_SYNC_POLL_MS (demo_env tab) = 2"
  "sha256Short (demo_env tab) k = k"
  "encodeURIComponent (demo_env tab) u = Some u"
  "JSON_stringify (demo_env tab) v = ''{}''"
  "parse_number (demo_env tab) u = None"
  "respond (demo_env tab) tr t rq =
     (case map_of tab (rq_url rq) of Some r \<Rightarrow> r | None \<Rightarrow> Rejected (TypeError ''fetch failed''))"
  "latency (demo_env tab) tr t rq = 1"
  "timer_lag (demo_env tab) tr t = 0"
  by (simp_all add: demo_env_def)

lemma bearer_sk1: "getBearerToken (text_request m) = ''sk-1''"
  by (rule bearer_demo) (simp add: text_request_def)

lemma text_request_body:
  "js_or (req_body (text_request m)) (JObj [])
     = JObj [(''contents'', JArr [JObj [(''parts'', JArr [JObj [(''text'', JStr ''a cat'')]])]])]"
  by (simp add: text_request_def js_or_def)

lemma extract_cat:
  "extractGeminiTextAndInlineImages
     (JObj [(''contents'', JArr [JObj [(''parts'', JArr [JObj [(''text'', JStr ''a cat'')]])]])])
     = (''a cat'', [])"
  by (simp add: extractGeminiTextAndInlineImages_def js_or_def as_array_def
      part_texts_def part_images_def trim_demo Let_def)

lemma text_request_param: "req_param (text_request m) = m"
  by (simp add: text_request_def)

text \<open>
  The claim as it was stated fails: the same request for the model
  \<^verbatim>\<open>gemini-2.5-flash-image\<close> takes the image branch and calls the four image endpoints.
\<close>

theorem generate_text_only_counterexample:
  "generateContent (demo_env []) (text_request ''gemini-2.5-flash-image'') state0 \<noteq> None
   \<and> fst (the (generateContent (demo_env []) (text_request ''gemini-2.5-flash-image'') state0))
       = Replied (json_reply 500 (JObj [(''error'', JStr ''KIE image generate failed (unknown endpoint/response).'')]))
   \<and> map ex_request (trace (snd (the (generateContent (demo_env []) (text_request ''gemini-2.5-flash-image'') state0))))
       = [image_request ''sk-1'' ''https://api.kie.ai/api/v1/gpt-image/generate''
            (JObj [(''prompt'', JStr ''a cat''), (''n'', JNum 1), (''size'', JStr ''1024x1024''), (''filesUrl'', JArr [])]),
          image_request ''sk-1'' ''https://api.kie.ai/api/v1/gpt-image/generate''
            (JObj [(''prompt'', JStr ''a cat''), (''n'', JNum 1), (''size'', JStr ''1024x1024''), (''filesUrl'', JArr [])]),
          image_request ''sk-1'' ''https://api.kie.ai/api/v1/image/generate''
            (JObj [(''prompt'', JStr ''a cat''), (''n'', JNum 1), (''size'', JStr ''1024x1024''), (''filesUrl'', JArr [])]),
          image_request ''sk-1'' ''https://api.kie.ai/api/v1/images/generate''
            (JObj [(''prompt'', JStr ''a cat''), (''n'', JNum 1), (''size'', JStr ''1024x1024''), (''filesUrl'', JArr [])])]"
proof -
  have m: "str_includes (toLowerCase ''gemini-2.5-flash-image'') ''image''"
    by (simp add: toLowerCase_def lower_char_def)
  have n: "js_Number (demo_env []) (JNum 1) = Inr (Some 1)"
    by (simp add: js_Number_def)
  have g: "generateContent (demo_env []) (text_request ''gemini-2.5-flash-image'') state0
             = map_option (catch500 ''error'')
                 (generate_image (demo_env []) ''sk-1'' ''gemini-2.5-flash-image''
                    (JObj [(''contents'', JArr [JObj [(''parts'', JArr [JObj [(''text'', JStr ''a cat'')]])]])])
                    ''a cat'' [] state0)"
    by (simp add: generateContent_def getApiKeyFromReq_def bearer_sk1 text_request_body extract_cat
        text_request_param m Let_def)
  show ?thesis
    unfolding g
    by (simp add: generate_image_def n kieImageGenerate_def image_candidates_def image_request_def
        catch500_def error_text_def demo_env_sel state0_def fetchJson_def fetch_def js_or_def Let_def)
qed

theorem generate_text_only_witness:
  "generateContent (demo_env []) (text_request ''gemini-pro'') state0 =
     Some (Replied (candidates_reply [JObj [(''text'', JStr (simplePromptPolish ''a cat''))]]),
           state0\<lparr>usageLogs :=
             pushUsageLog (sha256Short (demo_env [])) (usageLogs state0) ''sk-1''
               \<lparr>log_created_at = 0, log_model_name = ''local-prompt-polish:gemini-pro'',
                log_prompt = ''a cat'', log_image_count = 0,
                log_path = ''/v1beta/models/gemini-pro:generateContent'', log_kind = ''text''\<rparr>\<rparr>)"
proof -
  have k: "getApiKeyFromReq (text_request ''gemini-pro'') = Inr ''sk-1''" "''sk-1'' \<noteq> []"
    by (simp_all add: getApiKeyFromReq_def bearer_sk1)
  have i: "snd (extractGeminiTextAndInlineImages (js_or (req_body (text_request ''gemini-pro'')) (JObj []))) = []"
    by (simp add: text_request_body extract_cat)
  have r: "js_prop (js_prop (js_or (req_body (text_request ''gemini-pro'')) (JObj [])) ''generationConfig'')
             ''responseModalities'' = JUndefined"
    by (simp add: text_request_body)
  have m: "\<not> str_includes (toLowerCase (req_param (text_request ''gemini-pro''))) ''image''"
    by (simp add: text_request_param toLowerCase_def lower_char_def)
  from generate_text_only[OF k i r m, of "demo_env []" state0]
  show ?thesis
    by (simp add: text_request_body extract_cat text_request_param generate_path_def nowUnix_def state0_def)
qed

subsection \<open>The aspect ratio of Kling jobs\<close>

lemma trace_log_usage [simp]: "trace (log_usage env k l st) = trace st"
  by (simp add: log_usage_def)

lemma submitted_inputs_Nil [simp]: "submitted_inputs env [] = []"
  by (simp add: submitted_inputs_def List.map_filter_def)

lemma submitted_inputs_append:
  "submitted_inputs env (xs @ ys) = submitted_inputs env xs @ submitted_inputs env ys"
  by (simp add: submitted_inputs_def List.map_filter_def)

lemma submitted_inputs_job:
  "submitted_inputs env [\<lparr>ex_at = t, ex_request = createTask_request env apiKey model input, ex_result = fr\<rparr>]
     = [input]"
  by (simp add: submitted_inputs_def List.map_filter_def job_input_def createTask_request_def)

lemma kieCreateTask_trace:
  "kieCreateTask env apiKey model input st = (res, st') \<Longrightarrow>
     \<exists>fr. trace st' = trace st @ [\<lparr>ex_at = clock st,
                                    ex_request = createTask_request env apiKey model input,
                                    ex_result = fr\<rparr>]"
  by (auto simp: kieCreateTask_def fetchJson_def fetch_def Let_def
      split: prod.splits fetch_result.splits if_splits)

lemma probed_requests:
  assumes "probed hit rqs new found" "x \<in> set new"
  shows "ex_request x \<in> set rqs"
proof -
  from assms have "ex_request x \<in> set (map ex_request new)" by simp
  also from assms(1) have "map ex_request new = take (length new) rqs" by (simp add: probed_def)
  finally show ?thesis by (rule in_set_takeD)
qed

lemma upload_no_jobs:
  assumes "kieUploadBuffer env apiKey buffer filename mimeType st = (res, st')"
  shows "\<exists>new. trace st' = trace st @ new \<and> submitted_inputs env new = []"
proof (cases "\<exists>name mime. upload_loop env apiKey (FormFile name mime buffer) (upload_candidates env) st = (res, st')")
  case True
  then obtain name mime where
    l: "upload_loop env apiKey (FormFile name mime buffer) (upload_candidates env) st = (res, st')"
    by blast
  from upload_loop_probed[OF l] obtain new where n: "trace st' = trace st @ new"
    "probed upload_hit (map (\<lambda>u. upload_request apiKey u (FormFile name mime buffer)) (upload_candidates env))
       new (case res of Inr s \<Rightarrow> Some s | Inl e \<Rightarrow> None)" by blast
  have "job_input env x = None" if "x \<in> set new" for x
  proof -
    from probed_requests[OF n(2) that] obtain u where
      "ex_request x = upload_request apiKey u (FormFile name mime buffer)" by auto
    then show ?thesis by (simp add: job_input_def upload_request_def)
  qed
  then have "submitted_inputs env new = []"
    by (simp add: submitted_inputs_def List.map_filter_def filter_empty_conv)
  with n(1) show ?thesis by blast
next
  case False
  with assms have "st' = st"
    by (auto simp: kieUploadBuffer_def Let_def split: if_splits sum.splits)
  then show ?thesis by (simp add: submitted_inputs_def List.map_filter_def)
qed

lemma text2video_try_calls:
  assumes "kling_text2video_try env apiKey req st = (res, st')"
  shows "(st' = st \<and> (\<exists>e. res = Inl e))
       \<or> (\<exists>p ar d fr.
            mapAspectRatio (js_prop (js_or (req_body req) (JObj [])) ''aspect_ratio'') = Inr ar
            \<and> trace st' = trace st @ [\<lparr>ex_at = clock st,
                  ex_request = createTask_request env apiKey ''kling-2.6/text-to-video'' (text2video_input p ar d),
                  ex_result = fr\<rparr>])"
proof (cases "mapAspectRatio (js_prop (js_or (req_body req) (JObj [])) ''aspect_ratio'')")
  case (Inl e)
  with assms show ?thesis
    unfolding kling_text2video_try_def Let_def by (auto split: sum.splits)
next
  case (Inr ar)
  show ?thesis
  proof (cases "st' = st \<and> (\<exists>e. res = Inl e)")
    case True
    then show ?thesis by simp
  next
    case False
    with assms Inr obtain p d r st1 where
      k: "kieCreateTask env apiKey ''kling-2.6/text-to-video'' (text2video_input p ar d) st = (r, st1)"
      and t: "trace st' = trace st1"
      unfolding kling_text2video_try_def Let_def
      by (auto split: sum.splits prod.splits)
    from kieCreateTask_trace[OF k] t Inr show ?thesis by auto
  qed
qed

lemma image2video_try_calls:
  assumes "kling_image2video_try env apiKey req st = (res, st')"
  shows "(\<exists>new. trace st' = trace st @ new \<and> submitted_inputs env new = []
            \<and> (\<forall>rp. res = Inr rp \<longrightarrow> rp_status rp \<noteq> 200))
       \<or> (\<exists>ups p d u t fr.
            submitted_inputs env ups = []
            \<and> trace st' = trace st @ ups @ [\<lparr>ex_at = t,
                  ex_request = createTask_request env apiKey ''kling-2.6/image-to-video''
                                 (image2video_input p ''16:9'' d u),
                  ex_result = fr\<rparr>])"
proof (cases "\<exists>new. trace st' = trace st @ new \<and> submitted_inputs env new = []
            \<and> (\<forall>rp. res = Inr rp \<longrightarrow> rp_status rp \<noteq> 200)")
  case True
  then show ?thesis by simp
next
  case False
  have nojob: "\<exists>new. trace s1 = trace st @ new \<and> submitted_inputs env new = []"
    if "kieUploadBuffer env apiKey b name m st = (r, s1)" for b name m r s1
    using upload_no_jobs[OF that] .
  have same: "\<exists>new. trace st = trace st @ new \<and> submitted_inputs env new = []"
    by (simp add: submitted_inputs_def List.map_filter_def)
  from assms False obtain p d b name u st1 r st2 where
    up: "kieUploadBuffer env apiKey b name (JStr (detectImageMime b)) st = (Inr u, st1)"
    and k: "kieCreateTask env apiKey ''kling-2.6/image-to-video'' (image2video_input p ''16:9'' d u) st1 = (r, st2)"
    and t: "trace st' = trace st2"
    unfolding kling_image2video_try_def Let_def
    by (auto split: sum.splits prod.splits if_splits simp: json_reply_def same dest: nojob)
  from upload_no_jobs[OF up] obtain ups where ups: "trace st1 = trace st @ ups"
    "submitted_inputs env ups = []" by blast
  from kieCreateTask_trace[OF k] obtain fr where
    "trace st2 = trace st1 @ [\<lparr>ex_at = clock st1,
        ex_request = createTask_request env apiKey ''kling-2.6/image-to-video''
                       (image2video_input p ''16:9'' d u),
        ex_result = fr\<rparr>]" by blast
  with t ups show ?thesis
    by (intro disjI2 exI[of _ ups] exI[of _ p] exI[of _ d] exI[of _ u] exI[of _ "clock st1"]
        exI[of _ fr]) simp
qed


lemma new_calls_append: "trace st' = trace st @ new \<Longrightarrow> new_calls st st' = new"
  by (simp add: new_calls_def)

lemma catch500_trace: "trace (snd (catch500 key (res, st'))) = trace st'"
  by (cases res) (simp_all add: catch500_def)

lemma catch500_ok:
  "fst (catch500 key (res, st')) = Replied rp \<Longrightarrow> rp_status rp = 200 \<Longrightarrow> \<exists>rp'. res = Inr rp' \<and> rp_status rp' = 200"
  by (cases res) (auto simp: catch500_def json_reply_def)

lemma mapAspectRatio_value:
  assumes "mapAspectRatio v = Inr ar"
  shows "\<exists>s. js_String (js_or v (JStr [])) = Inr s
           \<and> ar = (if trim s \<in> {''16:9'', ''9:16'', ''1:1'', ''4:3'', ''3:4''} then trim s
                    else if toLowerCase (trim s) = ''auto'' then ''Auto'' else ''16:9'')"
proof (cases "js_String (js_or v (JStr []))")
  case (Inl e)
  with assms show ?thesis by (simp add: mapAspectRatio_def)
next
  case (Inr s)
  have "toLowerCase [] \<noteq> ''auto''" by (simp add: toLowerCase_def)
  with assms Inr show ?thesis
    by (auto simp: mapAspectRatio_def Let_def split: if_splits)
qed

text \<open>
  C6. Every job input the Kling image-to-video handler submits carries the aspect ratio
  \<^verbatim>\<open>16:9\<close>, whatever the request says. Every job input the text-to-video handler submits
  carries the ratio read from the request's \<^verbatim>\<open>aspect_ratio\<close> field: the field as a string,
  trimmed, when that is one of \<^verbatim>\<open>16:9\<close>, \<^verbatim>\<open>9:16\<close>, \<^verbatim>\<open>1:1\<close>, \<^verbatim>\<open>4:3\<close>, \<^verbatim>\<open>3:4\<close>;
  \<^verbatim>\<open>Auto\<close> when it is \<^verbatim>\<open>auto\<close> in any case; \<^verbatim>\<open>16:9\<close> for anything else and for a
  missing field. A reply with status 200 of either handler stands for exactly one
  submitted job.
\<close>

theorem kling_aspect_ratio:
  "(\<forall>i \<in> set (submitted_inputs env (new_calls st (snd (kling_image2video env req st)))).
       js_prop i ''aspect_ratio'' = JStr ''16:9'')
 \<and> (\<forall>i \<in> set (submitted_inputs env (new_calls st (snd (kling_text2video env req st)))).
       \<exists>s. js_String (js_or (js_prop (js_or (req_body req) (JObj [])) ''aspect_ratio'') (JStr [])) = Inr s
           \<and> js_prop i ''aspect_ratio'' =
               JStr (if trim s \<in> {''16:9'', ''9:16'', ''1:1'', ''4:3'', ''3:4''} then trim s
                     else if toLowerCase (trim s) = ''auto'' then ''Auto'' else ''16:9''))
 \<and> (\<forall>rp. fst (kling_image2video env req st) = Replied rp \<and> rp_status rp = 200 \<longrightarrow>
       length (submitted_inputs env (new_calls st (snd (kling_image2video env req st)))) = 1)
 \<and> (\<forall>rp. fst (kling_text2video env req st) = Replied rp \<and> rp_status rp = 200 \<longrightarrow>
       length (submitted_inputs env (new_calls st (snd (kling_text2video env req st)))) = 1)"
proof -
  let ?k = "getBearerToken req"
  obtain ri si where i: "kling_image2video_try env ?k req st = (ri, si)"
    by (cases "kling_image2video_try env ?k req st")
  obtain rt st' where t: "kling_text2video_try env ?k req st = (rt, st')"
    by (cases "kling_text2video_try env ?k req st")
  have img: "(\<forall>i \<in> set (submitted_inputs env (new_calls st (snd (kling_image2video env req st)))).
                js_prop i ''aspect_ratio'' = JStr ''16:9'')
           \<and> (\<forall>rp. fst (kling_image2video env req st) = Replied rp \<and> rp_status rp = 200 \<longrightarrow>
                length (submitted_inputs env (new_calls st (snd (kling_image2video env req st)))) = 1)"
  proof (cases "?k = []")
    case True
    then show ?thesis by (simp add: kling_image2video_def new_calls_def json_reply_def)
  next
    case False
    then have h: "kling_image2video env req st = catch500 ''message'' (ri, si)"
      by (simp add: kling_image2video_def i)
    from image2video_try_calls[OF i] show ?thesis
    proof
      assume "\<exists>new. trace si = trace st @ new \<and> submitted_inputs env new = []
                \<and> (\<forall>rp. ri = Inr rp \<longrightarrow> rp_status rp \<noteq> 200)"
      then obtain new where n: "trace si = trace st @ new" "submitted_inputs env new = []"
        "\<forall>rp. ri = Inr rp \<longrightarrow> rp_status rp \<noteq> 200" by blast
      from n(1) have "new_calls st (snd (catch500 ''message'' (ri, si))) = new"
        by (simp add: new_calls_def catch500_trace)
      with n(2) n(3) show ?thesis unfolding h using catch500_ok[of "''message''" ri si] by auto
    next
      assume "\<exists>ups p d u t fr. submitted_inputs env ups = []
                \<and> trace si = trace st @ ups @ [\<lparr>ex_at = t,
                      ex_request = createTask_request env ?k ''kling-2.6/image-to-video''
                                     (image2video_input p ''16:9'' d u),
                      ex_result = fr\<rparr>]"
      then obtain ups p d u t fr where n: "submitted_inputs env ups = []"
        "trace si = trace st @ ups @ [\<lparr>ex_at = t,
                      ex_request = createTask_request env ?k ''kling-2.6/image-to-video''
                                     (image2video_input p ''16:9'' d u),
                      ex_result = fr\<rparr>]" by blast
      from n(2) have "new_calls st (snd (catch500 ''message'' (ri, si)))
                        = ups @ [\<lparr>ex_at = t,
                      ex_request = createTask_request env ?k ''kling-2.6/image-to-video''
                                     (image2video_input p ''16:9'' d u),
                      ex_result = fr\<rparr>]"
        by (simp add: new_calls_def catch500_trace)
      then have "submitted_inputs env (new_calls st (snd (catch500 ''message'' (ri, si))))
                   = [image2video_input p ''16:9'' d u]"
        using n(1) by (simp add: submitted_inputs_append submitted_inputs_job)
      then show ?thesis unfolding h by (simp add: image2video_input_def)
    qed
  qed
  have tvid: "(\<forall>i \<in> set (submitted_inputs env (new_calls st (snd (kling_text2video env req st)))).
               \<exists>s. js_String (js_or (js_prop (js_or (req_body req) (JObj [])) ''aspect_ratio'') (JStr [])) = Inr s
                   \<and> js_prop i ''aspect_ratio'' =
                       JStr (if trim s \<in> {''16:9'', ''9:16'', ''1:1'', ''4:3'', ''3:4''} then trim s
                             else if toLowerCase (trim s) = ''auto'' then ''Auto'' else ''16:9''))
           \<and> (\<forall>rp. fst (kling_text2video env req st) = Replied rp \<and> rp_status rp = 200 \<longrightarrow>
                length (submitted_inputs env (new_calls st (snd (kling_text2video env req st)))) = 1)"
  proof (cases "?k = []")
    case True
    then show ?thesis by (simp add: kling_text2video_def new_calls_def json_reply_def)
  next
    case False
    then have h: "kling_text2video env req st = catch500 ''message'' (rt, st')"
      by (simp add: kling_text2video_def t)
    from text2video_try_calls[OF t] show ?thesis
    proof
      assume a: "st' = st \<and> (\<exists>e. rt = Inl e)"
      then have "new_calls st (snd (catch500 ''message'' (rt, st'))) = []"
        by (simp add: new_calls_def catch500_trace)
      with a show ?thesis unfolding h using catch500_ok[of "''message''" rt st'] by auto
    next
      assume "\<exists>p ar d fr.
            mapAspectRatio (js_prop (js_or (req_body req) (JObj [])) ''aspect_ratio'') = Inr ar
            \<and> trace st' = trace st @ [\<lparr>ex_at = clock st,
                  ex_request = createTask_request env ?k ''kling-2.6/text-to-video'' (text2video_input p ar d),
                  ex_result = fr\<rparr>]"
      then obtain p ar d fr where n:
        "mapAspectRatio (js_prop (js_or (req_body req) (JObj [])) ''aspect_ratio'') = Inr ar"
        "trace st' = trace st @ [\<lparr>ex_at = clock st,
                  ex_request = createTask_request env ?k ''kling-2.6/text-to-video'' (text2video_input p ar d),
                  ex_result = fr\<rparr>]" by blast
      from n(2) have "new_calls st (snd (catch500 ''message'' (rt, st')))
                        = [\<lparr>ex_at = clock st,
                  ex_request = createTask_request env ?k ''kling-2.6/text-to-video'' (text2video_input p ar d),
                  ex_result = fr\<rparr>]"
        by (simp add: new_calls_def catch500_trace)
      then have "submitted_inputs env (new_calls st (snd (catch500 ''message'' (rt, st'))))
                   = [text2video_input p ar d]"
        by (simp add: submitted_inputs_job)
      then show ?thesis unfolding h using mapAspectRatio_value[OF n(1)]
        by (simp add: text2video_input_def)
    qed
  qed
  from img tvid show ?thesis by blast
qed

lemma js_or_truthy: "truthy a \<Longrightarrow> js_or a b = a"
  by (simp add: js_or_def)

lemma js_or_falsy: "\<not> truthy a \<Longrightarrow> js_or a b = b"
  by (simp add: js_or_def)

lemma demo_from_base64: "from_base64 (demo_env tab) t = map (\<lambda>c. of_nat (of_char c)) t"
  by (simp add: demo_env_def)

lemma bearer_kling: "getBearerToken kling_request = ''sk-1''"
  by (rule bearer_demo) (simp add: kling_request_def)

lemma kling_body:
  "js_or (req_body kling_request) (JObj [])
     = JObj [(''prompt'', JStr ''a cat''), (''aspect_ratio'', JStr ''9:16''),
             (''duration'', JStr ''5''), (''image'', JStr ''iVBOR'')]"
  by (simp add: kling_request_def js_or_def)

lemma kling_image_run:
  "kling_image2video_try (demo_env kling_table) ''sk-1'' kling_request state0
     = (Inr (json_reply 200 (JObj [(''data'', JObj [(''task_id'', JStr ''job1'')])])),
        \<lparr>clock = 2,
         trace = [\<lparr>ex_at = 0,
                   ex_request = upload_request ''sk-1'' ''https://api.kie.ai/api/v1/files/upload''
                                  (FormFile ''kling-input.png'' (JStr ''image/png'') [105, 86, 66, 79, 82]),
                   ex_result = answer 200 (JObj [(''data'', JObj [(''url'', JStr ''https://files.example/in.png'')])])\<rparr>,
                  \<lparr>ex_at = 1,
                   ex_request = createTask_request (demo_env kling_table) ''sk-1'' ''kling-2.6/image-to-video''
                                  (image2video_input ''a cat'' ''16:9'' ''5'' ''https://files.example/in.png''),
                   ex_result = answer 200 (JObj [(''data'', JObj [(''taskId'', JStr ''job1'')])])\<rparr>],
         usageLogs = [''sk-1'' \<mapsto> [\<lparr>log_created_at = 0, log_model_name = ''kling-2.6/image-to-video'',
                                     log_prompt = ''a cat'', log_image_count = 1,
                                     log_path = ''/kling/v1/videos/image2video'', log_kind = ''create''\<rparr>]]\<rparr>)"
  by (simp add: kling_image2video_try_def kling_body trim_demo demo_from_base64
      detectImageMime_def extFromMime_def kieUploadBuffer_def upload_candidates_def upload_request_def
      upload_file_url_def kieCreateTask_def createTask_request_def response_taskId_def
      log_usage_def pushUsageLog_def nowUnix_def kling_table_def demo_env_sel
      answer_def state0_def fetchJson_def fetch_def resp_ok_def js_or_truthy js_or_falsy js_nc_def
      nullish_def Let_def)


lemma kling_text_run:
  "kling_text2video_try (demo_env kling_table) ''sk-1'' kling_request state0
     = (Inr (json_reply 200 (JObj [(''data'', JObj [(''task_id'', JStr ''job1'')])])),
        \<lparr>clock = 1,
         trace = [\<lparr>ex_at = 0,
                   ex_request = createTask_request (demo_env kling_table) ''sk-1'' ''kling-2.6/text-to-video''
                                  (text2video_input ''a cat'' ''9:16'' ''5''),
                   ex_result = answer 200 (JObj [(''data'', JObj [(''taskId'', JStr ''job1'')])])\<rparr>],
         usageLogs = [''sk-1'' \<mapsto> [\<lparr>log_created_at = 0, log_model_name = ''kling-2.6/text-to-video'',
                                     log_prompt = ''a cat'', log_image_count = 0,
                                     log_path = ''/kling/v1/videos/text2video'', log_kind = ''create''\<rparr>]]\<rparr>)"
  by (simp add: kling_text2video_try_def kling_body mapAspectRatio_def trim_demo
      kieCreateTask_def createTask_request_def response_taskId_def
      log_usage_def pushUsageLog_def nowUnix_def kling_table_def demo_env_sel
      answer_def state0_def fetchJson_def fetch_def resp_ok_def js_or_truthy js_or_falsy js_nc_def
      nullish_def Let_def)

theorem kling_aspect_ratio_witness:
  "fst (kling_image2video (demo_env kling_table) kling_request state0)
     = Replied (json_reply 200 (JObj [(''data'', JObj [(''task_id'', JStr ''job1'')])]))
   \<and> js_prop (js_or (req_body kling_request) (JObj [])) ''aspect_ratio'' = JStr ''9:16''
   \<and> submitted_inputs (demo_env kling_table)
        (new_calls state0 (snd (kling_image2video (demo_env kling_table) kling_request state0)))
     = [image2video_input ''a cat'' ''16:9'' ''5'' ''https://files.example/in.png'']
   \<and> js_prop (image2video_input ''a cat'' ''16:9'' ''5'' ''https://files.example/in.png'') ''aspect_ratio''
     = JStr ''16:9''
   \<and> submitted_inputs (demo_env kling_table)
        (new_calls state0 (snd (kling_text2video (demo_env kling_table) kling_request state0)))
     = [text2video_input ''a cat'' ''9:16'' ''5'']
   \<and> js_prop (text2video_input ''a cat'' ''9:16'' ''5'') ''aspect_ratio'' = JStr ''9:16''"
proof -
  let ?E = "demo_env kling_table"
  have hi: "kling_image2video ?E kling_request state0
              = catch500 ''message'' (kling_image2video_try ?E ''sk-1'' kling_request state0)"
    by (simp add: kling_image2video_def bearer_kling Let_def)
  have ht: "kling_text2video ?E kling_request state0
              = catch500 ''message'' (kling_text2video_try ?E ''sk-1'' kling_request state0)"
    by (simp add: kling_text2video_def bearer_kling Let_def)
  have r: "fst (kling_image2video ?E kling_request state0)
             = Replied (json_reply 200 (JObj [(''data'', JObj [(''task_id'', JStr ''job1'')])]))"
    unfolding hi kling_image_run by (simp add: catch500_def)
  have q: "js_prop (js_or (req_body kling_request) (JObj [])) ''aspect_ratio'' = JStr ''9:16''"
    by (simp add: kling_body)
  have i: "submitted_inputs ?E (new_calls state0 (snd (kling_image2video ?E kling_request state0)))
             = [image2video_input ''a cat'' ''16:9'' ''5'' ''https://files.example/in.png'']"
    unfolding hi kling_image_run
    by (simp add: catch500_def new_calls_def submitted_inputs_def List.map_filter_def job_input_def
        createTask_request_def upload_request_def demo_env_sel state0_def)
  have t: "submitted_inputs ?E (new_calls state0 (snd (kling_text2video ?E kling_request state0)))
             = [text2video_input ''a cat'' ''9:16'' ''5'']"
    unfolding ht kling_text_run
    by (simp add: catch500_def new_calls_def submitted_inputs_def List.map_filter_def job_input_def
        createTask_request_def demo_env_sel state0_def)
  have m: "js_String (js_or (JStr ''9:16'') (JStr [])) = Inr ''9:16''"
    by (simp add: js_or_def)
  from kling_aspect_ratio[of ?E state0 kling_request]
  have "\<forall>x \<in> set (submitted_inputs ?E (new_calls state0 (snd (kling_image2video ?E kling_request state0)))).
          js_prop x ''aspect_ratio'' = JStr ''16:9''"
    and "\<forall>x \<in> set (submitted_inputs ?E (new_calls state0 (snd (kling_text2video ?E kling_request state0)))).
          \<exists>s. js_String (js_or (js_prop (js_or (req_body kling_request) (JObj [])) ''aspect_ratio'') (JStr [])) = Inr s
              \<and> js_prop x ''aspect_ratio'' =
                  JStr (if trim s \<in> {''16:9'', ''9:16'', ''1:1'', ''4:3'', ''3:4''} then trim s
                        else if toLowerCase (trim s) = ''auto'' then ''Auto'' else ''16:9'')"
    by blast+
  then have "js_prop (image2video_input ''a cat'' ''16:9'' ''5'' ''https://files.example/in.png'') ''aspect_ratio''
               = JStr ''16:9''"
    and "js_prop (text2video_input ''a cat'' ''9:16'' ''5'') ''aspect_ratio'' = JStr ''9:16''"
    unfolding i t q m by (simp_all add: trim_demo)
  with r q i t show ?thesis by simp
qed

subsection \<open>The ledger under the handlers\<close>

lemma ledger_fetch: "usageLogs (snd (fetch env rq st)) = usageLogs st"
  by (simp add: fetch_def Let_def)

lemma ledger_fetchJson: "usageLogs (snd (fetchJson env rq st)) = usageLogs st"
  using ledger_fetch[of env rq st]
  by (auto simp: fetchJson_def split: prod.splits fetch_result.splits)

lemma ledger_sleep [simp]: "usageLogs (sleep env ms st) = usageLogs st"
  by (simp add: sleep_def)

lemma ledger_log_usage [simp]:
  "usageLogs (log_usage env k l st) = pushUsageLog (sha256Short env) (usageLogs st) k l"
  by (simp add: log_usage_def)

lemma ledger_fetchJson_eq: "fetchJson env rq st = (r, st1) \<Longrightarrow> usageLogs st1 = usageLogs st"
  using ledger_fetchJson[of env rq st] by simp

lemma ledger_fetch_eq: "fetch env rq st = (r, st1) \<Longrightarrow> usageLogs st1 = usageLogs st"
  using ledger_fetch[of env rq st] by simp

lemma ledger_kieCreateTask: "kieCreateTask env k m i st = (r, st1) \<Longrightarrow> usageLogs st1 = usageLogs st"
  by (auto simp: kieCreateTask_def Let_def split: prod.splits sum.splits if_splits dest: ledger_fetchJson_eq)

lemma ledger_kieRecordInfo: "kieRecordInfo env k t st = (r, st1) \<Longrightarrow> usageLogs st1 = usageLogs st"
  by (auto simp: kieRecordInfo_def Let_def split: prod.splits sum.splits option.splits if_splits dest: ledger_fetchJson_eq)

lemma ledger_kieVeoGenerate: "kieVeoGenerate env k b st = (r, st1) \<Longrightarrow> usageLogs st1 = usageLogs st"
  by (auto simp: kieVeoGenerate_def Let_def split: prod.splits sum.splits if_splits dest: ledger_fetchJson_eq)

lemma ledger_kieVeoRecordInfo: "kieVeoRecordInfo env k t st = (r, st1) \<Longrightarrow> usageLogs st1 = usageLogs st"
  by (auto simp: kieVeoRecordInfo_def Let_def split: prod.splits sum.splits option.splits if_splits dest: ledger_fetchJson_eq)

lemma ledger_kieImageRecordInfo:
  "kieImageRecordInfo env k b t st = (r, st1) \<Longrightarrow> usageLogs st1 = usageLogs st"
  by (auto simp: kieImageRecordInfo_def Let_def split: prod.splits sum.splits option.splits if_splits dest: ledger_fetchJson_eq)

lemma ledger_kieUploadBuffer:
  assumes "kieUploadBuffer env k b n m st = (r, st1)"
  shows "usageLogs st1 = usageLogs st"
proof (cases "\<exists>name mime. upload_loop env k (FormFile name mime b) (upload_candidates env) st = (r, st1)")
  case True
  then show ?thesis using upload_loop_probed by blast
next
  case False
  with assms have "st1 = st"
    by (auto simp: kieUploadBuffer_def Let_def split: if_splits sum.splits)
  then show ?thesis by simp
qed

lemma ledger_kieImageGenerate:
  "kieImageGenerate env k b st = (r, st1) \<Longrightarrow> usageLogs st1 = usageLogs st"
  using image_loop_probed[of env k b "image_candidates env" st r st1]
  by (auto simp: kieImageGenerate_def)

lemma ledger_upload_inline:
  "upload_inline env k i imgs st = (r, st1) \<Longrightarrow> usageLogs st1 = usageLogs st"
proof (induction imgs arbitrary: i st r st1)
  case Nil
  then show ?case by simp
next
  case (Cons a imgs)
  obtain mm dd where a: "a = (mm, dd)" by (cases a)
  show ?case
  proof (cases "js_String dd")
    case (Inl e)
    with Cons.prems a show ?thesis by simp
  next
    case d: (Inr d)
    let ?buf = "from_base64 env d"
    let ?mime = "js_or mm (JStr (detectImageMime ?buf))"
    show ?thesis
    proof (cases "extFromMime ?mime")
      case (Inl e)
      with Cons.prems a d show ?thesis by (simp add: Let_def)
    next
      case ext: (Inr ext)
      obtain ru su where u: "kieUploadBuffer env k ?buf (''gemini-inline-'' @ nat_to_string i @ ''.'' @ ext) ?mime st = (ru, su)"
        by (cases "kieUploadBuffer env k ?buf (''gemini-inline-'' @ nat_to_string i @ ''.'' @ ext) ?mime st")
      note su = ledger_kieUploadBuffer[OF u]
      show ?thesis
      proof (cases ru)
        case (Inl e)
        with Cons.prems a d ext u have "st1 = su" by (simp add: Let_def)
        with su show ?thesis by simp
      next
        case url: (Inr url)
        obtain rr sr where rec: "upload_inline env k (Suc i) imgs su = (rr, sr)"
          by (cases "upload_inline env k (Suc i) imgs su")
        from Cons.IH[OF rec] su have sr: "usageLogs sr = usageLogs st" by simp
        from Cons.prems a d ext u url rec have "st1 = sr"
          by (cases rr) (simp_all add: Let_def)
        with sr show ?thesis by simp
      qed
    qed
  qed
qed

lemma ledger_fetchBinary:
  assumes "fetchBinaryAsBase64 env u st = (r, st1)"
  shows "usageLogs st1 = usageLogs st"
proof (cases "js_String u")
  case (Inl e)
  with assms show ?thesis by (simp add: fetchBinaryAsBase64_def)
next
  case (Inr target)
  let ?rq = "\<lparr>rq_url = target, rq_method = ''GET'', rq_headers = [], rq_body = NoBody\<rparr>"
  obtain fr sf where f: "fetch env ?rq st = (fr, sf)" by (cases "fetch env ?rq st")
  from assms Inr f have "st1 = sf"
    by (cases fr) (simp_all add: fetchBinaryAsBase64_def Let_def split: if_splits)
  with ledger_fetch_eq[OF f] show ?thesis by simp
qed

lemma ledger_fetch_parts:
  "fetch_parts env us st = (r, st1) \<Longrightarrow> usageLogs st1 = usageLogs st"
proof (induction us arbitrary: st r st1)
  case Nil
  then show ?case by simp
next
  case (Cons u us)
  obtain rb sb where b: "fetchBinaryAsBase64 env u st = (rb, sb)"
    by (cases "fetchBinaryAsBase64 env u st")
  note sb = ledger_fetchBinary[OF b]
  show ?case
  proof (cases rb)
    case (Inl e)
    with Cons.prems b have "st1 = sb" by simp
    with sb show ?thesis by simp
  next
    case (Inr mb)
    obtain rr sr where rec: "fetch_parts env us sb = (rr, sr)" by (cases "fetch_parts env us sb")
    from Cons.IH[OF rec] sb have sr: "usageLogs sr = usageLogs st" by simp
    from Cons.prems b Inr rec have "st1 = sr"
      by (cases rr; cases mb) simp_all
    with sr show ?thesis by simp
  qed
qed

lemma ledger_wait_loop:
  assumes "wait_loop env k b t start st = Some y"
  shows "usageLogs (snd y) = usageLogs st"
proof (rule wait_loop.raw_induct[where P = "\<lambda>env k b t start st y. usageLogs (snd y) = usageLogs st",
        OF _ assms], goal_cases)
  case (1 wl env k b t start st y)
  show ?case
  proof (cases "clock st - start < IMAGE_SYNC_MAX_WAIT_MS env")
    case False
    with 1(2) show ?thesis by auto
  next
    case True
    obtain r s1 where ri: "kieImageRecordInfo env k b t st = (r, s1)"
      by (cases "kieImageRecordInfo env k b t st")
    note s1 = ledger_kieImageRecordInfo[OF ri]
    show ?thesis
    proof (cases r)
      case (Inl e)
      with 1(2) True ri have "y = (Inl e, s1)" by simp
      with s1 show ?thesis by simp
    next
      case (Inr json)
      show ?thesis
      proof (cases "normalizeKieStatusToSimple json")
        case (Inl e)
        with 1(2) True ri Inr have "y = (Inl e, s1)" by simp
        with s1 show ?thesis by simp
      next
        case st: (Inr status)
        show ?thesis
        proof (cases "status = ''completed'' \<or> status = ''failed''")
          case True
          with 1(2) \<open>clock st - start < IMAGE_SYNC_MAX_WAIT_MS env\<close> ri Inr st
          have "snd y = s1" by (auto split: if_splits)
          with s1 show ?thesis by simp
        next
          case False
          with 1(2) \<open>clock st - start < IMAGE_SYNC_MAX_WAIT_MS env\<close> ri Inr st
          have "wl env k b t start (sleep env (IMAGE_SYNC_POLL_MS env) s1) = Some y" by simp
          from 1(1)[OF this] s1 show ?thesis by simp
        qed
      qed
    qed
  qed
qed

lemma ledger_waitFor:
  "waitForKieImageResult env k b t st = Some (r, st1) \<Longrightarrow> usageLogs st1 = usageLogs st"
  using ledger_wait_loop[of env k b t "clock st" st "(r, st1)"]
  by (simp add: waitForKieImageResult_def)

lemma appended_refl [simp]: "appended env L L"
  by (simp add: appended_def)

lemma appended_push [simp]: "appended env L (pushUsageLog (sha256Short env) L k l)"
  by (auto simp: appended_def)

lemma appended_catch500:
  "appended env L (usageLogs (snd r)) \<Longrightarrow> appended env L (usageLogs (snd (catch500 key r)))"
  by (cases r) (auto simp: catch500_def split: sum.splits)

lemma ledger_text2video_try:
  "appended env (usageLogs st) (usageLogs (snd (kling_text2video_try env k req st)))"
  unfolding kling_text2video_try_def Let_def
  by (auto split: sum.splits prod.splits dest!: ledger_kieCreateTask)

lemma ledger_image2video_try:
  "appended env (usageLogs st) (usageLogs (snd (kling_image2video_try env k req st)))"
  unfolding kling_image2video_try_def Let_def
  by (auto split: sum.splits prod.splits dest!: ledger_kieCreateTask ledger_kieUploadBuffer)

lemma ledger_veo_create:
  "appended env (usageLogs st) (usageLogs (snd (veo_create env k model p sz st)))"
  unfolding veo_create_def Let_def
  by (auto split: sum.splits prod.splits dest!: ledger_kieVeoGenerate)

lemma ledger_sora_create:
  "appended env (usageLogs st) (usageLogs (snd (sora_create env k model p seconds sz resolution fs st)))"
proof (cases "mapAspectRatio (JStr sz)")
  case (Inl e)
  then show ?thesis by (simp add: sora_create_def)
next
  case (Inr ar)
  have job: "appended env (usageLogs st)
               (usageLogs (snd (case kieCreateTask env k mm input s1 of
                      (Inl e, st2) \<Rightarrow> (Inl e, st2)
                    | (Inr taskId, st2) \<Rightarrow>
                       (Inr (json_reply 200
                               (JObj [(''task_id'', taskId), (''id'', taskId),
                                      (''status'', JStr ''processing'')])),
                        log_usage env k (create_log st2 mm p n) st2))))"
    if "usageLogs s1 = usageLogs st" for input s1 mm n
  proof -
    obtain r s2 where c: "kieCreateTask env k mm input s1 = (r, s2)"
      by (cases "kieCreateTask env k mm input s1")
    from ledger_kieCreateTask[OF c] that have "usageLogs s2 = usageLogs st" by simp
    with c show ?thesis by (cases r) simp_all
  qed
  show ?thesis
  proof (cases fs)
    case Nil
    with Inr show ?thesis by (simp add: sora_create_def Let_def job)
  next
    case (Cons f rest)
    obtain ru su where u: "kieUploadBuffer env k (f_buffer f) (f_originalname f) (JStr (f_mimetype f)) st = (ru, su)"
      by (cases "kieUploadBuffer env k (f_buffer f) (f_originalname f) (JStr (f_mimetype f)) st")
    note su = ledger_kieUploadBuffer[OF u]
    show ?thesis
    proof (cases ru)
      case (Inl e)
      with Inr Cons u su show ?thesis by (simp add: sora_create_def Let_def)
    next
      case url: (Inr url)
      with Inr Cons u show ?thesis by (simp add: sora_create_def Let_def job[OF su])
    qed
  qed
qed

lemma ledger_videos_poll_try:
  "usageLogs (snd (videos_poll_try env k taskId st)) = usageLogs st"
  unfolding videos_poll_try_def
  by (auto split: sum.splits prod.splits dest!: ledger_kieRecordInfo ledger_kieVeoRecordInfo)

lemma ledger_chat_loop:
  "appended env (usageLogs st) (usageLogs (snd (chat_loop env k req hdrs cands st)))"
proof (induction cands arbitrary: hdrs st)
  case Nil
  then show ?case by simp
next
  case (Cons u rest)
  let ?rq = "chat_request k u (js_or (req_body req) (JObj []))"
  obtain fr s1 where f: "fetch env ?rq st = (fr, s1)" by (cases "fetch env ?rq st")
  note s1 = ledger_fetch_eq[OF f]
  have ih: "appended env (usageLogs st) (usageLogs (snd (chat_loop env k req h rest s1)))" for h
    using Cons.IH[where hdrs = h and st = s1] s1 by simp
  show ?case
  proof (cases fr)
    case (Rejected e)
    with f ih show ?thesis by simp
  next
    case (Responded r)
    with f ih s1 show ?thesis
      by (auto simp: Let_def split: sum.splits)
  qed
qed

lemma ledger_generate_image:
  assumes "generate_image env k modelId body p images st = Some (r, st')"
  shows "appended env (usageLogs st) (usageLogs st')"
proof -
  let ?config = "js_prop body ''generationConfig''"
  show ?thesis
  proof (cases "js_Number env (js_or (js_prop ?config ''candidateCount'') (JNum 1))")
    case (Inl e)
    with assms have "st' = st" by (simp add: generate_image_def Let_def)
    then show ?thesis by simp
  next
    case num: (Inr num)
    obtain ru s1 where u: "upload_inline env k 0 images st = (ru, s1)"
      by (cases "upload_inline env k 0 images st")
    note s1 = ledger_upload_inline[OF u]
    show ?thesis
    proof (cases ru)
      case (Inl e)
      with assms num u have "st' = s1" by (simp add: generate_image_def Let_def)
      with s1 show ?thesis by simp
    next
      case files: (Inr filesUrl)
      let ?n = "case num of None \<Rightarrow> None | Some k \<Rightarrow> Some (min 4 (max 1 k))"
      let ?b = "JObj [(''prompt'', JStr (if p \<noteq> [] then p else ''Generate an image'')),
                      (''n'', (case ?n of None \<Rightarrow> JNull | Some k \<Rightarrow> JNum k)),
                      (''size'', js_or (js_prop ?config ''imageSize'') (JStr ''1024x1024'')),
                      (''filesUrl'', JArr (map JStr filesUrl))]"
      obtain rg s2 where g: "kieImageGenerate env k ?b s1 = (rg, s2)"
        by (cases "kieImageGenerate env k ?b s1")
      note s2 = ledger_kieImageGenerate[OF g]
      show ?thesis
      proof (cases rg)
        case (Inl e)
        with assms num u files g have "st' = s2" by (simp add: generate_image_def Let_def)
        with s1 s2 show ?thesis by simp
      next
        case task: (Inr tr)
        obtain taskId recordBase where tr: "tr = (taskId, recordBase)" by (cases tr)
        let ?s3 = "log_usage env k
                     \<lparr>log_created_at = nowUnix s2,
                      log_model_name = ''kie-image:'' @ (if modelId \<noteq> [] then modelId else ''image''),
                      log_prompt = p, log_image_count = length filesUrl,
                      log_path = generate_path modelId, log_kind = ''image-create''\<rparr> s2"
        have s3: "appended env (usageLogs st) (usageLogs ?s3)" using s1 s2 by simp
        show ?thesis
        proof (cases "waitForKieImageResult env k recordBase taskId ?s3")
          case None
          with assms num u files g task tr show ?thesis by (simp add: generate_image_def Let_def)
        next
          case (Some w)
          obtain rw s4 where w: "w = (rw, s4)" by (cases w)
          from Some w have s4: "usageLogs s4 = usageLogs ?s3" by (auto dest: ledger_waitFor)
          show ?thesis
          proof (cases rw)
            case (Inl e)
            with assms num u files g task tr Some w have "st' = s4"
              by (simp add: generate_image_def Let_def)
            with s3 s4 show ?thesis by simp
          next
            case urls: (Inr urls)
            let ?take = "take (case ?n of None \<Rightarrow> 0 | Some k \<Rightarrow> nat k) urls"
            obtain rf s5 where f: "fetch_parts env ?take s4 = (rf, s5)"
              by (cases "fetch_parts env ?take s4")
            note s5 = ledger_fetch_parts[OF f]
            from assms num u files g task tr Some w urls f have "st' = s5"
              by (cases rf) (simp_all add: generate_image_def Let_def)
            with s3 s4 s5 show ?thesis by simp
          qed
        qed
      qed
    qed
  qed
qed

lemma handlers_only_append:
  "appended env (usageLogs st) (usageLogs (snd (videos_create env req st)))"
  "appended env (usageLogs st) (usageLogs (snd (videos_poll env req st)))"
  "appended env (usageLogs st) (usageLogs (snd (kling_text2video env req st)))"
  "appended env (usageLogs st) (usageLogs (snd (kling_image2video env req st)))"
  "appended env (usageLogs st) (usageLogs (snd (chat_completions env req st)))"
  "generateContent env req st = Some (out, st') \<Longrightarrow> appended env (usageLogs st) (usageLogs st')"
proof -
  show "appended env (usageLogs st) (usageLogs (snd (videos_create env req st)))"
    by (auto simp: videos_create_def videos_create_try_def Let_def
        split: sum.splits prod.splits intro!: appended_catch500 ledger_veo_create ledger_sora_create)
  show "appended env (usageLogs st) (usageLogs (snd (videos_poll env req st)))"
    by (auto simp: videos_poll_def Let_def ledger_videos_poll_try intro!: appended_catch500)
  show "appended env (usageLogs st) (usageLogs (snd (kling_text2video env req st)))"
    by (auto simp: kling_text2video_def Let_def intro!: appended_catch500 ledger_text2video_try)
  show "appended env (usageLogs st) (usageLogs (snd (kling_image2video env req st)))"
    by (auto simp: kling_image2video_def Let_def intro!: appended_catch500 ledger_image2video_try)
  show "appended env (usageLogs st) (usageLogs (snd (chat_completions env req st)))"
    by (simp add: chat_completions_def Let_def ledger_chat_loop del: chat_loop.simps)
  show "appended env (usageLogs st) (usageLogs st')" if g: "generateContent env req st = Some (out, st')"
  proof (cases "getApiKeyFromReq req")
    case (Inl e)
    with g show ?thesis by (simp add: generateContent_def)
  next
    case (Inr apiKey)
    let ?body = "js_or (req_body req) (JObj [])"
    let ?ex = "extractGeminiTextAndInlineImages ?body"
    show ?thesis
    proof (cases "apiKey = []")
      case True
      with g Inr show ?thesis by (simp add: generateContent_def)
    next
      case False
      show ?thesis
      proof (cases "generateContent env req st = map_option (catch500 ''error'')
                     (generate_image env apiKey (req_param req) ?body (fst ?ex) (snd ?ex) st)")
        case True
        with g obtain r s where gi: "generate_image env apiKey (req_param req) ?body (fst ?ex) (snd ?ex) st = Some (r, s)"
          and c: "catch500 ''error'' (r, s) = (out, st')" by auto
        from c have "st' = s" by (cases r) (simp_all add: catch500_def)
        with ledger_generate_image[OF gi] show ?thesis by simp
      next
        case notimg: False
        with g Inr False have "st' = snd (generate_text env apiKey (req_param req) (fst ?ex) st)"
          by (auto simp: generateContent_def Let_def split: if_splits prod.splits)
        then show ?thesis by (simp add: generate_text_def Let_def)
      qed
    qed
  qed
qed

lemma gemini_text_run:
  "generateContent (demo_env []) (text_request ''gemini-pro'') state0 =
     Some (Replied (candidates_reply [JObj [(''text'', JStr (simplePromptPolish ''a cat''))]]),
           snd (generate_text (demo_env []) ''sk-1'' ''gemini-pro'' ''a cat'' state0))"
proof -
  have m: "\<not> str_includes (toLowerCase ''gemini-pro'') ''image''"
    by (simp add: toLowerCase_def lower_char_def)
  show ?thesis
    by (simp add: generateContent_def getApiKeyFromReq_def bearer_sk1 text_request_body extract_cat
        text_request_param m as_array_def generate_text_def polish_text Let_def)
qed

text \<open>
  C9. An append under a non-empty key puts the entry in front of the key's array, cut to
  2000 entries, and leaves every other key alone; so a ledger with no array above 2000
  stays one, as the empty ledger the process starts with is. Appending 2001 entries
  under a key that had none leaves exactly 2000: the entries in reverse order of
  arrival, without the first that came. And the handlers
  change the ledger by appending only: after any of them it is the ledger of before, or
  that ledger after one \<^verbatim>\<open>pushUsageLog\<close>.
\<close>

theorem usage_ledger_bounded:
  assumes key: "apiKey \<noteq> []"
  shows "pushUsageLog sha L apiKey e (sha apiKey)
           = Some (take 2000 (e # (case L (sha apiKey) of Some a \<Rightarrow> a | None \<Rightarrow> [])))
       \<and> (\<forall>k. k \<noteq> sha apiKey \<longrightarrow> pushUsageLog sha L apiKey e k = L k)
       \<and> bounded_ledger Map.empty
       \<and> (bounded_ledger L \<longrightarrow> bounded_ledger (pushUsageLog sha L apiKey e))
       \<and> (length es = 2001 \<and> L (sha apiKey) = None \<longrightarrow>
             push_all sha L apiKey es (sha apiKey) = Some (rev (tl es))
             \<and> length (rev (tl es)) = 2000)
       \<and> appended env (usageLogs st) (usageLogs (snd (videos_create env req st)))
       \<and> appended env (usageLogs st) (usageLogs (snd (videos_poll env req st)))
       \<and> appended env (usageLogs st) (usageLogs (snd (kling_text2video env req st)))
       \<and> appended env (usageLogs st) (usageLogs (snd (kling_image2video env req st)))
       \<and> appended env (usageLogs st) (usageLogs (snd (chat_completions env req st)))
       \<and> (\<forall>out st'. generateContent env req st = Some (out, st') \<longrightarrow>
             appended env (usageLogs st) (usageLogs st'))"
proof -
  have a: "pushUsageLog sha L apiKey e (sha apiKey)
           = Some (take 2000 (e # (case L (sha apiKey) of Some a \<Rightarrow> a | None \<Rightarrow> [])))"
    using key by (simp add: push_take)
  have b: "\<forall>k. k \<noteq> sha apiKey \<longrightarrow> pushUsageLog sha L apiKey e k = L k"
    by (simp add: push_take)
  have c: "bounded_ledger Map.empty
           \<and> (bounded_ledger L \<longrightarrow> bounded_ledger (pushUsageLog sha L apiKey e))"
    by (auto simp: bounded_ledger_def push_take)
  have d: "push_all sha L apiKey es (sha apiKey) = Some (rev (tl es)) \<and> length (rev (tl es)) = 2000"
    if len: "length es = 2001" and emp: "L (sha apiKey) = None"
  proof -
    from len obtain x xs where es: "es = x # xs" "length xs = 2000" by (cases es) auto
    then have "take 2000 (rev es) = rev xs" by simp
    with push_all_key[OF key, of sha L es] emp es show ?thesis by simp
  qed
  from a b c d handlers_only_append[where env = env and st = st and req = req] show ?thesis by blast
qed

theorem usage_ledger_bounded_witness:
  "push_all (\<lambda>k. k) Map.empty ''key'' (map demo_log [0..<2001]) ''key''
      = Some (rev (map demo_log [1..<2001]))
   \<and> length (rev (map demo_log [1..<2001])) = 2000
   \<and> pushUsageLog (\<lambda>k. k) Map.empty ''key'' (demo_log 7) ''key'' = Some [demo_log 7]
   \<and> pushUsageLog (\<lambda>k. k) Map.empty ''key'' (demo_log 7) ''other'' = None
   \<and> bounded_ledger (pushUsageLog (\<lambda>k. k) Map.empty ''key'' (demo_log 7))
   \<and> appended (demo_env []) (usageLogs state0)
        (usageLogs (snd (generate_text (demo_env []) ''sk-1'' ''gemini-pro'' ''a cat'' state0)))"
proof -
  have k: "''key'' \<noteq> []" by simp
  have l: "length (map demo_log [0..<2001]) = 2001
           \<and> Map.empty ((\<lambda>k. k) ''key'') = (None :: usage_log list option)" by simp
  have t: "tl (map demo_log [0..<2001]) = map demo_log [1..<2001]"
    by (simp add: upt_conv_Cons[of 0 2001] del: upt_Suc)
  have o: "''other'' \<noteq> (\<lambda>k. k) ''key''" by simp
  note usage_ledger_bounded[OF k, where sha = "\<lambda>k. k" and L = Map.empty and e = "demo_log 7"
      and es = "map demo_log [0..<2001]" and env = "demo_env []" and st = state0
      and req = "text_request ''gemini-pro''"]
  with l t o gemini_text_run show ?thesis by auto
qed

end
